theory Spec2Isabelle
  imports Complex_Main "HOL-Library.Word" "HOL-Library.Log_Nat"
begin

section \<open>The resource ledger of snax.system (delegate\_bandwidth.cpp)\<close>

text \<open>
  The embedding follows \<^verbatim>\<open>contracts/snax.system/delegate_bandwidth.cpp\<close>. Every action
  of the contract is a function from the chain context and the ledger to either an error
  (the action aborts and the platform rolls the ledger back) or the new ledger.

  An \<^verbatim>\<open>asset\<close> is modelled by its amount, a mathematical integer: every asset of this
  file is of the core symbol, and the checks of the asset library (equal symbols, amounts
  within range), which live outside this file, are not part of the model. Arithmetic on
  \<^verbatim>\<open>int64_t\<close> is modelled on \<^typ>\<open>int\<close>; C++ division truncates towards zero and is written
  \<open>tdiv\<close>. Where the source computes on the raw \<^verbatim>\<open>amount\<close> of an asset that the caller
  supplies (the fee of \<^verbatim>\<open>buyram\<close>), the 64-bit two's complement result is written out
  with \<open>int64\<close>. The clock \<^verbatim>\<open>now()\<close> and \<^verbatim>\<open>request_time\<close> are 32-bit unsigned values and keep
  their wrap-around.
\<close>

subsection \<open>Basic types\<close>

type_synonym account_name = string
type_synonym asset = int
type_synonym time = "32 word"

datatype error =
    AssertFailed string
  | MissingAuthority account_name
  | DivideByZero

definition tdiv :: "int \<Rightarrow> int \<Rightarrow> int" where
  "tdiv a b = sgn a * sgn b * (\<bar>a\<bar> div \<bar>b\<bar>)"

definition refund_delay :: time where
  "refund_delay = 3 * 24 * 3600"

definition seconds_per_year :: int where
  "seconds_per_year = 52 * 7 * 24 * 3600"

record user_resources =
  ur_owner :: account_name
  ur_net_weight :: asset
  ur_cpu_weight :: asset
  ur_ram_bytes :: int

record delegated_bandwidth =
  db_from :: account_name
  db_to :: account_name
  db_net_weight :: asset
  db_cpu_weight :: asset

record refund_request =
  rr_owner :: account_name
  rr_request_time :: time
  rr_net_amount :: asset
  rr_cpu_amount :: asset

text \<open>
  Modelled from the spec: the escrow record and the voter record are declared in
  \<^verbatim>\<open>snax.system.hpp\<close>, which is not part of the sources. The fields are the ones this file
  reads and writes; \<open>eb_created\<close> is the creation time in seconds since the epoch (the
  source stores a block timestamp and converts it back to seconds, which gives the same
  number for every time from the year 2000 on), and a voter without a proxy has the empty
  name.
\<close>

record escrow_bandwidth =
  eb_owner :: account_name
  eb_initial_amount :: asset
  eb_amount :: asset
  eb_created :: int
  eb_period_count :: "8 word"

record voter_info =
  v_owner :: account_name
  v_staked :: int
  v_proxy :: account_name
  v_producers :: "account_name list"

text \<open>Actions and calls that leave the contract, in the order they are issued.\<close>

datatype effect =
    Transfer account_name account_name asset string
  | SetResourceLimits account_name int int int
  | UpdateVotes account_name account_name "account_name list"

text \<open>
  The chain context of one action: the clock, the accounts whose authority the action
  carries, the privileged accounts, and \<^verbatim>\<open>min_activated_stake\<close> (a constant of the missing
  header, taken as a parameter).
\<close>

record chain_context =
  now :: time
  auths :: "account_name set"
  privileged :: "account_name set"
  min_activated_stake :: int

text \<open>
  The ledger. A multi-index table is a map from (scope, primary key) to its row. The
  escrow table of a scope is the list of its rows with their primary keys, in key order
  (the order in which an iterator walks them). \<open>deferred\<close> maps a sender id to the delay
  of its pending deferred transaction. The RAM market row is of a type \<open>'m\<close> whose
  definition and \<^verbatim>\<open>convert\<close> are in another file; \<^verbatim>\<open>convert\<close> is a parameter of the two
  actions that use it.
\<close>

record 'm ledger =
  resources_market_open :: bool
  total_ram_bytes_reserved :: int
  total_ram_stake :: int
  total_activated_stake :: int
  rammarket :: "'m option"
  userres :: "account_name \<times> account_name \<rightharpoonup> user_resources"
  delband :: "account_name \<times> account_name \<rightharpoonup> delegated_bandwidth"
  refunds :: "account_name \<times> account_name \<rightharpoonup> refund_request"
  escrow :: "account_name \<Rightarrow> (nat \<times> escrow_bandwidth) list"
  voters :: "account_name \<rightharpoonup> voter_info"
  deferred :: "account_name \<rightharpoonup> time"
  effects :: "effect list"

datatype convert_to = ToRam | ToCore

type_synonym 'm convert = "'m \<Rightarrow> asset \<Rightarrow> convert_to \<Rightarrow> 'm \<times> asset"

subsection \<open>buyram\<close>

text \<open>
  The value an \<^verbatim>\<open>int64_t\<close> holds when the mathematical result of an operation is \<open>x\<close>.
\<close>

definition int64 :: "int \<Rightarrow> int" where
  "int64 x = (x + 2 ^ 63) mod 2 ^ 64 - 2 ^ 63"

text \<open>
  \<^verbatim>\<open>fee.amount = ( fee.amount + 199 ) / 200\<close> on the amount of \<^verbatim>\<open>quant\<close>, which arrives as
  action data without a range check.
\<close>

definition ram_fee :: "int \<Rightarrow> int" where
  "ram_fee amount = tdiv (int64 (amount + 199)) 200"

definition buyram ::
  "'m convert \<Rightarrow> chain_context \<Rightarrow> 'm ledger \<Rightarrow> account_name \<Rightarrow> account_name \<Rightarrow> asset
     \<Rightarrow> error + 'm ledger" where
  "buyram conv ctx s payer receiver quant =
     (if payer \<notin> auths ctx then Inl (MissingAuthority payer)
      else if \<not> quant > 0 then Inl (AssertFailed ''must purchase a positive amount'')
      else if \<not> (resources_market_open s \<or> payer \<in> privileged ctx)
        then Inl (AssertFailed ''ram market must be open or user must be privileged to buy ram'')
      else
        let fee = ram_fee quant;
            after_fee = int64 (quant - fee);
            eff1 = [Transfer payer ''snax.ram'' after_fee ''buy ram''];
            eff2 = (if fee > 0 then [Transfer payer ''snax.ramfee'' fee ''ram fee''] else [])
        in case rammarket s of
             None \<Rightarrow> Inl (AssertFailed ''ram market does not exist'')
           | Some market \<Rightarrow>
               let (market', bytes_out) = conv market after_fee ToRam in
               if \<not> bytes_out > 0 then Inl (AssertFailed ''must reserve a positive amount'')
               else
                 let res = (case userres s (receiver, receiver) of
                              None \<Rightarrow> \<lparr>ur_owner = receiver, ur_net_weight = 0,
                                        ur_cpu_weight = 0, ur_ram_bytes = bytes_out\<rparr>
                            | Some r \<Rightarrow> r\<lparr>ur_ram_bytes := ur_ram_bytes r + bytes_out\<rparr>)
                 in Inr (s\<lparr>rammarket := Some market',
                           total_ram_bytes_reserved := total_ram_bytes_reserved s + bytes_out,
                           total_ram_stake := total_ram_stake s + after_fee,
                           userres := (userres s)((receiver, receiver) \<mapsto> res),
                           effects := effects s @ eff1 @ eff2 @
                             [SetResourceLimits (ur_owner res) (ur_ram_bytes res)
                                (ur_net_weight res) (ur_cpu_weight res)]\<rparr>))"

subsection \<open>sellram\<close>

text \<open>
  The fee of \<^verbatim>\<open>sellram\<close> is computed on \<^verbatim>\<open>tokens_out\<close>, the asset that \<^verbatim>\<open>convert\<close> returns.
  The asset library keeps the magnitude of an amount it constructs below \<open>2^62\<close>, so the
  sum stays within 64 bits.
\<close>

definition sellram_fee :: "int \<Rightarrow> int" where
  "sellram_fee amount = tdiv (amount + 199) 200"

definition sellram ::
  "'m convert \<Rightarrow> chain_context \<Rightarrow> 'm ledger \<Rightarrow> account_name \<Rightarrow> int \<Rightarrow> error + 'm ledger" where
  "sellram conv ctx s account bytes =
     (if account \<notin> auths ctx then Inl (MissingAuthority account)
      else if \<not> bytes > 0 then Inl (AssertFailed ''cannot sell negative byte'')
      else case userres s (account, account) of
        None \<Rightarrow> Inl (AssertFailed ''no resource row'')
      | Some r \<Rightarrow>
          if \<not> ur_ram_bytes r \<ge> bytes then Inl (AssertFailed ''insufficient quota'')
          else case rammarket s of
            None \<Rightarrow> Inl (AssertFailed ''cannot pass end iterator to modify'')
          | Some market \<Rightarrow>
              let (market', tokens_out) = conv market bytes ToCore in
              if \<not> tokens_out > 1
                then Inl (AssertFailed ''token amount received from selling ram is too low'')
              else if \<not> total_ram_stake s - tokens_out \<ge> 0
                then Inl (AssertFailed
                      ''error, attempt to unstake more tokens than previously staked'')
              else
                let res = r\<lparr>ur_ram_bytes := ur_ram_bytes r - bytes\<rparr>;
                    fee = sellram_fee tokens_out
                in Inr (s\<lparr>rammarket := Some market',
                          total_ram_bytes_reserved := total_ram_bytes_reserved s - bytes,
                          total_ram_stake := total_ram_stake s - tokens_out,
                          userres := (userres s)((account, account) \<mapsto> res),
                          effects := effects s @
                            [SetResourceLimits (ur_owner res) (ur_ram_bytes res)
                               (ur_net_weight res) (ur_cpu_weight res),
                             Transfer ''snax.ram'' account tokens_out ''sell ram''] @
                            (if fee > 0
                             then [Transfer account ''snax.ramfee'' fee ''sell ram fee'']
                             else [])\<rparr>))"

subsection \<open>validate\_b1\_vesting\<close>

text \<open>
  \<^verbatim>\<open>validate_b1_vesting\<close> computes \<^verbatim>\<open>claimable\<close> in double precision. The operations of
  IEEE 754 binary64 return the exact result rounded to the nearest value with a 53-bit
  significand, ties to even; \<open>to_double\<close> is that rounding on the rationals (the
  magnitudes that occur here are far from the subnormal and the overflow range).
  The conversion to \<^verbatim>\<open>int64_t\<close> truncates towards zero.
\<close>

definition round_half_even :: "rat \<Rightarrow> int" where
  "round_half_even q =
     (let f = \<lfloor>q\<rfloor>; r = q - of_int f
      in if r < 1 / 2 then f else if 1 / 2 < r then f + 1
         else if even f then f else f + 1)"

definition binary_exponent :: "rat \<Rightarrow> int" where
  "binary_exponent q =
     (let (n, m) = quotient_of q;
          e = int (floorlog 2 (nat n)) - int (floorlog 2 (nat m))
      in if 2 powi e \<le> q then e else e - 1)"

definition to_double :: "rat \<Rightarrow> rat" where
  "to_double q =
     (if q = 0 then 0
      else let e = binary_exponent \<bar>q\<bar> - 52
           in sgn q * of_int (round_half_even (\<bar>q\<bar> / 2 powi e)) * 2 powi e)"

definition trunc_to_int :: "rat \<Rightarrow> int" where
  "trunc_to_int q = (if 0 \<le> q then \<lfloor>q\<rfloor> else \<lceil>q\<rceil>)"

definition base_time :: int where
  "base_time = 1527811200"

definition max_claimable :: int where
  "max_claimable = 1000000000000"

definition b1_claimable :: "time \<Rightarrow> int" where
  "b1_claimable t =
     trunc_to_int
       (to_double (to_double (of_int max_claimable * of_int (uint t - base_time))
                   / of_int (10 * seconds_per_year)))"

definition validate_b1_vesting :: "time \<Rightarrow> int \<Rightarrow> error + unit" where
  "validate_b1_vesting t stake =
     (if \<not> max_claimable - b1_claimable t \<le> stake
      then Inl (AssertFailed ''b1 can only claim their tokens over 10 years'')
      else Inr ())"

subsection \<open>changebw\<close>

text \<open>
  The four blocks of \<^verbatim>\<open>changebw\<close> are four functions, run in the order of the source.
  \<open>from\<close> is the local variable after \<^verbatim>\<open>if (transfer) from = receiver\<close>. A row that
  \<^verbatim>\<open>emplace\<close> creates is stored under the primary key its fields give it; \<^verbatim>\<open>emplace\<close>
  fails when that key is taken.
\<close>

definition changebw_delband ::
  "'m ledger \<Rightarrow> bool \<Rightarrow> account_name \<Rightarrow> account_name \<Rightarrow> asset \<Rightarrow> asset \<Rightarrow> error + 'm ledger"
  where
  "changebw_delband s swap from receiver stake_net_delta stake_cpu_delta =
     (let scope = (if swap then receiver else from);
          key = (if swap then from else receiver);
          found = delband s (scope, key);
          (pk, row) = (case found of
             None \<Rightarrow> (receiver, \<lparr>db_from = from, db_to = receiver,
                                   db_net_weight = stake_net_delta,
                                   db_cpu_weight = stake_cpu_delta\<rparr>)
           | Some dbo \<Rightarrow> (key, dbo\<lparr>db_net_weight := db_net_weight dbo + stake_net_delta,
                                     db_cpu_weight := db_cpu_weight dbo + stake_cpu_delta\<rparr>))
      in if found = None \<and> delband s (scope, pk) \<noteq> None
           then Inl (AssertFailed ''could not insert object, primary key not unique'')
         else if \<not> 0 \<le> db_net_weight row
           then Inl (AssertFailed ''insufficient staked net bandwidth'')
         else if \<not> 0 \<le> db_cpu_weight row
           then Inl (AssertFailed ''insufficient staked cpu bandwidth'')
         else if db_net_weight row = 0 \<and> db_cpu_weight row = 0
           then Inr (s\<lparr>delband := (delband s)((scope, pk) := None)\<rparr>)
         else Inr (s\<lparr>delband := (delband s)((scope, pk) \<mapsto> row)\<rparr>))"

definition changebw_totals ::
  "'m ledger \<Rightarrow> bool \<Rightarrow> account_name \<Rightarrow> account_name \<Rightarrow> asset \<Rightarrow> asset \<Rightarrow> error + 'm ledger"
  where
  "changebw_totals s swap from receiver stake_net_delta stake_cpu_delta =
     (let scope = (if swap then from else receiver);
          found = userres s (scope, scope);
          (pk, tot) = (case found of
             None \<Rightarrow> (receiver, \<lparr>ur_owner = receiver, ur_net_weight = stake_net_delta,
                                   ur_cpu_weight = stake_cpu_delta, ur_ram_bytes = 0\<rparr>)
           | Some r \<Rightarrow> (scope, r\<lparr>ur_net_weight := ur_net_weight r + stake_net_delta,
                                   ur_cpu_weight := ur_cpu_weight r + stake_cpu_delta\<rparr>))
      in if found = None \<and> userres s (scope, pk) \<noteq> None
           then Inl (AssertFailed ''could not insert object, primary key not unique'')
         else if \<not> 0 \<le> ur_net_weight tot
           then Inl (AssertFailed ''insufficient staked total net bandwidth'')
         else if \<not> 0 \<le> ur_cpu_weight tot
           then Inl (AssertFailed ''insufficient staked total cpu bandwidth'')
         else
           let s1 = s\<lparr>effects := effects s @
                      [SetResourceLimits receiver (ur_ram_bytes tot)
                         (ur_net_weight tot) (ur_cpu_weight tot)]\<rparr>
           in if ur_net_weight tot = 0 \<and> ur_cpu_weight tot = 0 \<and> ur_ram_bytes tot = 0
                then Inr (s1\<lparr>userres := (userres s)((scope, pk) := None)\<rparr>)
              else Inr (s1\<lparr>userres := (userres s)((scope, pk) \<mapsto> tot)\<rparr>))"

text \<open>
  The body of \<^verbatim>\<open>refunds_tbl.modify\<close>: the updated row and what is left of the two balances.
\<close>

definition update_refund ::
  "time \<Rightarrow> refund_request \<Rightarrow> asset \<Rightarrow> asset \<Rightarrow> refund_request \<times> asset \<times> asset" where
  "update_refund t r net_balance cpu_balance =
     (let r1 = (if net_balance < 0 \<or> cpu_balance < 0 then r\<lparr>rr_request_time := t\<rparr> else r);
          r2 = r1\<lparr>rr_net_amount := rr_net_amount r1 - net_balance\<rparr>;
          (r3, net_balance') =
            (if rr_net_amount r2 < 0 then (r2\<lparr>rr_net_amount := 0\<rparr>, - rr_net_amount r2)
             else (r2, 0));
          r4 = r3\<lparr>rr_cpu_amount := rr_cpu_amount r3 - cpu_balance\<rparr>;
          (r5, cpu_balance') =
            (if rr_cpu_amount r4 < 0 then (r4\<lparr>rr_cpu_amount := 0\<rparr>, - rr_cpu_amount r4)
             else (r4, 0))
      in (r5, net_balance', cpu_balance'))"

text \<open>The body of \<^verbatim>\<open>refunds_tbl.emplace\<close>; the amounts of a fresh row are zero.\<close>

definition create_refund ::
  "time \<Rightarrow> account_name \<Rightarrow> asset \<Rightarrow> asset \<Rightarrow> refund_request \<times> asset \<times> asset" where
  "create_refund t from net_balance cpu_balance =
     (\<lparr>rr_owner = from, rr_request_time = t,
       rr_net_amount = (if net_balance < 0 then - net_balance else 0),
       rr_cpu_amount = (if cpu_balance < 0 then - cpu_balance else 0)\<rparr>,
      (if net_balance < 0 then 0 else net_balance),
      (if cpu_balance < 0 then 0 else cpu_balance))"

text \<open>
  The create, update or delete of the refund row: the new table, the balances left to
  transfer, and \<^verbatim>\<open>need_deferred_trx\<close>.
\<close>

definition refund_bookkeeping ::
  "chain_context \<Rightarrow> 'm ledger \<Rightarrow> account_name \<Rightarrow> account_name \<Rightarrow> asset \<Rightarrow> asset \<Rightarrow> bool
     \<Rightarrow> error + ((account_name \<times> account_name \<rightharpoonup> refund_request) \<times> asset \<times> asset \<times> bool)"
  where
  "refund_bookkeeping ctx s from receiver stake_net_delta stake_cpu_delta transfer =
     (let is_undelegating = (stake_net_delta + stake_cpu_delta < 0);
          is_delegating_to_self = (\<not> transfer \<and> from = receiver)
      in if is_delegating_to_self \<or> is_undelegating then
           (case refunds s (from, from) of
              Some r \<Rightarrow>
                let (r', net_balance, cpu_balance) =
                      update_refund (now ctx) r stake_net_delta stake_cpu_delta
                in if \<not> 0 \<le> rr_net_amount r'
                     then Inl (AssertFailed ''negative net refund amount'')
                   else if \<not> 0 \<le> rr_cpu_amount r'
                     then Inl (AssertFailed ''negative cpu refund amount'')
                   else if rr_net_amount r' = 0 \<and> rr_cpu_amount r' = 0
                     then Inr ((refunds s)((from, from) := None),
                               net_balance, cpu_balance, False)
                   else Inr ((refunds s)((from, from) \<mapsto> r'),
                             net_balance, cpu_balance, True)
            | None \<Rightarrow>
                if stake_net_delta < 0 \<or> stake_cpu_delta < 0 then
                  let (r', net_balance, cpu_balance) =
                        create_refund (now ctx) from stake_net_delta stake_cpu_delta
                  in Inr ((refunds s)((from, from) \<mapsto> r'), net_balance, cpu_balance, True)
                else Inr (refunds s, stake_net_delta, stake_cpu_delta, False))
         else Inr (refunds s, stake_net_delta, stake_cpu_delta, False))"

definition changebw_refund ::
  "chain_context \<Rightarrow> 'm ledger \<Rightarrow> account_name \<Rightarrow> account_name \<Rightarrow> account_name
     \<Rightarrow> asset \<Rightarrow> asset \<Rightarrow> bool \<Rightarrow> error + 'm ledger" where
  "changebw_refund ctx s source_stake_from from receiver stake_net_delta stake_cpu_delta
       transfer =
     (if ''snax.stake'' = source_stake_from then Inr s
      else
        case refund_bookkeeping ctx s from receiver stake_net_delta stake_cpu_delta transfer of
          Inl e \<Rightarrow> Inl e
        | Inr (tbl, net_balance, cpu_balance, need_deferred_trx) \<Rightarrow>
            let transfer_amount = net_balance + cpu_balance
            in Inr (s\<lparr>refunds := tbl,
                      deferred := (if need_deferred_trx
                                   then (deferred s)(from \<mapsto> refund_delay)
                                   else (deferred s)(from := None)),
                      effects := effects s @
                        (if 0 < transfer_amount
                         then [Transfer source_stake_from ''snax.stake'' transfer_amount
                                 ''stake bandwidth'']
                         else [])\<rparr>))"

text \<open>The voting-power block, with the vesting check of the account \<^verbatim>\<open>b1\<close>.\<close>

definition changebw_voters ::
  "chain_context \<Rightarrow> 'm ledger \<Rightarrow> bool \<Rightarrow> account_name \<Rightarrow> account_name \<Rightarrow> asset \<Rightarrow> asset
     \<Rightarrow> error + 'm ledger" where
  "changebw_voters ctx s swap from receiver stake_net_delta stake_cpu_delta =
     (let total_update = stake_net_delta + stake_cpu_delta;
          key = (if swap then receiver else from);
          found = voters s key;
          (pk, v) = (case found of
             None \<Rightarrow> (from, \<lparr>v_owner = from, v_staked = total_update,
                               v_proxy = [], v_producers = []\<rparr>)
           | Some v0 \<Rightarrow> (key, v0\<lparr>v_staked := v_staked v0 + total_update\<rparr>))
      in if found = None \<and> voters s pk \<noteq> None
           then Inl (AssertFailed ''could not insert object, primary key not unique'')
         else if \<not> 0 \<le> v_staked v
           then Inl (AssertFailed ''stake for voting cannot be negative'')
         else
           case (if from = ''b1'' then validate_b1_vesting (now ctx) (v_staked v) else Inr ()) of
             Inl e \<Rightarrow> Inl e
           | Inr _ \<Rightarrow>
               Inr (s\<lparr>voters := (voters s)(pk \<mapsto> v),
                      effects := effects s @
                        (if v_producers v \<noteq> [] \<or> v_proxy v \<noteq> []
                         then [UpdateVotes from (v_proxy v) (v_producers v)]
                         else [])\<rparr>))"

definition changebw ::
  "chain_context \<Rightarrow> 'm ledger \<Rightarrow> account_name \<Rightarrow> account_name \<Rightarrow> asset \<Rightarrow> asset \<Rightarrow> bool
     \<Rightarrow> error + 'm ledger" where
  "changebw ctx s from0 receiver stake_net_delta stake_cpu_delta transfer =
     (let swap = (stake_net_delta < 0 \<and> stake_cpu_delta < 0);
          signer = (if swap then receiver else from0)
      in if signer \<notin> auths ctx then Inl (MissingAuthority signer)
         else if \<not> (resources_market_open s \<or> from0 \<in> privileged ctx)
           then Inl (AssertFailed
             ''net and cpu market must be open or user must be privileged to change bandwidth'')
         else if \<not> (stake_net_delta \<noteq> 0 \<or> stake_cpu_delta \<noteq> 0)
           then Inl (AssertFailed ''should stake non-zero amount'')
         else if \<not> \<bar>stake_net_delta + stake_cpu_delta\<bar>
                     \<ge> max \<bar>stake_net_delta\<bar> \<bar>stake_cpu_delta\<bar>
           then Inl (AssertFailed ''net and cpu deltas cannot be opposite signs'')
         else
           let source_stake_from = from0;
               from = (if transfer then receiver else from0)
           in case changebw_delband s swap from receiver stake_net_delta stake_cpu_delta of
                Inl e \<Rightarrow> Inl e
              | Inr s1 \<Rightarrow>
           case changebw_totals s1 swap from receiver stake_net_delta stake_cpu_delta of
                Inl e \<Rightarrow> Inl e
              | Inr s2 \<Rightarrow>
           case changebw_refund ctx s2 source_stake_from from receiver
                  stake_net_delta stake_cpu_delta transfer of
                Inl e \<Rightarrow> Inl e
              | Inr s3 \<Rightarrow>
           changebw_voters ctx s3 swap from receiver stake_net_delta stake_cpu_delta)"

subsection \<open>delegatebw and escrowbw\<close>

definition delegatebw ::
  "chain_context \<Rightarrow> 'm ledger \<Rightarrow> account_name \<Rightarrow> account_name \<Rightarrow> asset \<Rightarrow> asset \<Rightarrow> bool
     \<Rightarrow> error + 'm ledger" where
  "delegatebw ctx s from receiver stake_net_quantity stake_cpu_quantity transfer =
     (if \<not> stake_cpu_quantity \<ge> 0 then Inl (AssertFailed ''must stake a positive amount'')
      else if \<not> stake_net_quantity \<ge> 0 then Inl (AssertFailed ''must stake a positive amount'')
      else if \<not> stake_net_quantity + stake_cpu_quantity > 0
        then Inl (AssertFailed ''must stake a positive amount'')
      else if \<not> (\<not> transfer \<or> from \<noteq> receiver)
        then Inl (AssertFailed ''cannot use transfer flag if delegating to self'')
      else changebw ctx s from receiver stake_net_quantity stake_cpu_quantity transfer)"

text \<open>
  The primary key of an escrow row is a function of its fields that the missing header
  defines; it is the parameter \<open>pk\<close>. The new row goes to its place in key order.
\<close>

definition escrowbw ::
  "(escrow_bandwidth \<Rightarrow> nat) \<Rightarrow> chain_context \<Rightarrow> 'm ledger \<Rightarrow> account_name \<Rightarrow> account_name
     \<Rightarrow> asset \<Rightarrow> asset \<Rightarrow> bool \<Rightarrow> 8 word \<Rightarrow> error + 'm ledger" where
  "escrowbw pk ctx s from receiver stake_net_quantity stake_cpu_quantity transfer period_count =
     (case delegatebw ctx s from receiver stake_net_quantity stake_cpu_quantity transfer of
        Inl e \<Rightarrow> Inl e
      | Inr s1 \<Rightarrow>
          let scope = (if transfer then receiver else from);
              new_record = \<lparr>eb_owner = receiver,
                        eb_initial_amount = stake_net_quantity + stake_cpu_quantity,
                        eb_amount = stake_net_quantity + stake_cpu_quantity,
                        eb_created = uint (now ctx),
                        eb_period_count = period_count\<rparr>
          in if pk new_record \<in> fst ` set (escrow s1 scope)
               then Inl (AssertFailed ''could not insert object, primary key not unique'')
             else Inr (s1\<lparr>escrow := (escrow s1)
                            (scope := insort_key fst (pk new_record, new_record) (escrow s1 scope))\<rparr>))"

subsection \<open>undelegatebw\<close>

text \<open>
  One pass of the loop body for a bucket of \<open>from\<close>: the share of the bucket that is
  unlocked at time \<open>t\<close> (in seconds), less what was unstaked from it before.
\<close>

definition elapsed_periods :: "int \<Rightarrow> escrow_bandwidth \<Rightarrow> int" where
  "elapsed_periods t r = tdiv (t - eb_created r) 15768000"

definition available_to_unstake_from_bucket :: "int \<Rightarrow> escrow_bandwidth \<Rightarrow> asset" where
  "available_to_unstake_from_bucket t r =
     tdiv (eb_initial_amount r) (uint (eb_period_count r)) * (elapsed_periods t r + 1)
       - (eb_initial_amount r - eb_amount r)"

text \<open>
  The \<^verbatim>\<open>while\<close> loop over the escrow rows from the iterator on: the result is the final
  \<^verbatim>\<open>available_to_unstake\<close> and the rows as the loop leaves them. The loop ends at the end
  of the table or when \<^verbatim>\<open>enough\<close> is set. Dividing by a period count of zero traps.
\<close>

fun escrow_scan ::
  "account_name \<Rightarrow> int \<Rightarrow> asset \<Rightarrow> asset \<Rightarrow> (nat \<times> escrow_bandwidth) list
     \<Rightarrow> error + (asset \<times> (nat \<times> escrow_bandwidth) list)" where
  "escrow_scan from t request available [] = Inr (available, [])"
| "escrow_scan from t request available ((k, r) # rows) =
     (if eb_owner r = from then
        if eb_period_count r = 0 then Inl DivideByZero
        else
          let bucket = available_to_unstake_from_bucket t r;
              available' = available - eb_amount r + bucket
          in if available' > request
               then Inr (request,
                         (k, r\<lparr>eb_amount := eb_amount r - (bucket - (available' - request))\<rparr>)
                           # rows)
             else (case escrow_scan from t request available' rows of
                     Inl e \<Rightarrow> Inl e
                   | Inr (a, rows') \<Rightarrow>
                       Inr (a, (k, r\<lparr>eb_amount := eb_amount r - bucket\<rparr>) # rows'))
      else (case escrow_scan from t request available rows of
              Inl e \<Rightarrow> Inl e
            | Inr (a, rows') \<Rightarrow> Inr (a, (k, r) # rows')))"

text \<open>\<^verbatim>\<open>lower_bound(1)\<close>: the rows before the iterator and the rows from it on.\<close>

definition lower_bound_1 ::
  "(nat \<times> escrow_bandwidth) list
     \<Rightarrow> (nat \<times> escrow_bandwidth) list \<times> (nat \<times> escrow_bandwidth) list" where
  "lower_bound_1 rows = (takeWhile (\<lambda>(k, r). k < 1) rows, dropWhile (\<lambda>(k, r). k < 1) rows)"

definition undelegatebw ::
  "chain_context \<Rightarrow> 'm ledger \<Rightarrow> account_name \<Rightarrow> account_name \<Rightarrow> asset \<Rightarrow> asset
     \<Rightarrow> error + 'm ledger" where
  "undelegatebw ctx s from receiver unstake_net_quantity unstake_cpu_quantity =
     (if \<not> 0 \<le> unstake_cpu_quantity then Inl (AssertFailed ''must unstake a positive amount'')
      else if \<not> 0 \<le> unstake_net_quantity
        then Inl (AssertFailed ''must unstake a positive amount'')
      else if \<not> 0 < unstake_cpu_quantity + unstake_net_quantity
        then Inl (AssertFailed ''must unstake a positive amount'')
      else case delband s (receiver, from) of
        None \<Rightarrow> Inl (AssertFailed ''no such user to undelegate from'')
      | Some row \<Rightarrow>
          let (before, rows) = lower_bound_1 (escrow s receiver)
          in case escrow_scan from (uint (now ctx))
                    (unstake_net_quantity + unstake_cpu_quantity)
                    (db_net_weight row + db_cpu_weight row) rows of
               Inl e \<Rightarrow> Inl e
             | Inr (available_to_unstake, rows') \<Rightarrow>
                 if \<not> unstake_net_quantity + unstake_cpu_quantity \<le> available_to_unstake
                   then Inl (AssertFailed
                     ''cant unstake this amount for account at the moment'')
                 else if \<not> total_activated_stake s \<ge> min_activated_stake ctx
                   then Inl (AssertFailed
                     ''cannot undelegate bandwidth until the chain is activated (at least 10% of all tokens participate in voting)'')
                 else changebw ctx (s\<lparr>escrow := (escrow s)(receiver := before @ rows')\<rparr>)
                        from receiver (- unstake_net_quantity) (- unstake_cpu_quantity) False)"

text \<open>
  The gate in the words of the specification, to compare with the loop: the change a
  bucket makes to the available amount, the buckets of \<open>from\<close> among the rows, the amount
  after the first \<open>n\<close> of them, and the amount after all of them.
\<close>

definition bucket_delta :: "int \<Rightarrow> escrow_bandwidth \<Rightarrow> asset" where
  "bucket_delta t r = available_to_unstake_from_bucket t r - eb_amount r"

definition owned_buckets ::
  "account_name \<Rightarrow> (nat \<times> escrow_bandwidth) list \<Rightarrow> escrow_bandwidth list" where
  "owned_buckets from rows = filter (\<lambda>r. eb_owner r = from) (map snd rows)"

definition running_available :: "asset \<Rightarrow> int \<Rightarrow> escrow_bandwidth list \<Rightarrow> nat \<Rightarrow> asset" where
  "running_available base t owned n = base + sum_list (map (bucket_delta t) (take n owned))"

definition available_spec :: "asset \<Rightarrow> int \<Rightarrow> escrow_bandwidth list \<Rightarrow> asset" where
  "available_spec base t owned = base + sum_list (map (bucket_delta t) owned)"

subsection \<open>refund\<close>

definition refund :: "chain_context \<Rightarrow> 'm ledger \<Rightarrow> account_name \<Rightarrow> error + 'm ledger" where
  "refund ctx s owner =
     (if owner \<notin> auths ctx then Inl (MissingAuthority owner)
      else case refunds s (owner, owner) of
        None \<Rightarrow> Inl (AssertFailed ''refund request not found'')
      | Some req \<Rightarrow>
          if \<not> rr_request_time req + refund_delay \<le> now ctx
            then Inl (AssertFailed ''refund is not available yet'')
          else Inr (s\<lparr>refunds := (refunds s)((owner, owner) := None),
                      effects := effects s @
                        [Transfer ''snax.stake'' (rr_owner req)
                           (rr_net_amount req + rr_cpu_amount req) ''unstake'']\<rparr>))"

subsection \<open>Reachable ledgers\<close>

text \<open>
  A ledger is reachable when a sequence of successful actions leads to it from a ledger
  whose tables are empty. \<open>delegation_reachable\<close> allows the delegation operations only.
\<close>

definition initial :: "'m ledger \<Rightarrow> bool" where
  "initial s \<longleftrightarrow>
     userres s = Map.empty \<and> delband s = Map.empty \<and> refunds s = Map.empty
     \<and> voters s = Map.empty \<and> deferred s = Map.empty \<and> escrow s = (\<lambda>_. [])"

inductive reachable :: "'m ledger \<Rightarrow> bool" where
  r_initial: "initial s \<Longrightarrow> reachable s"
| r_buyram: "reachable s \<Longrightarrow> buyram conv ctx s payer receiver quant = Inr s' \<Longrightarrow> reachable s'"
| r_sellram: "reachable s \<Longrightarrow> sellram conv ctx s account bytes = Inr s' \<Longrightarrow> reachable s'"
| r_changebw:
    "reachable s \<Longrightarrow> changebw ctx s from receiver net cpu transfer = Inr s' \<Longrightarrow> reachable s'"
| r_delegatebw:
    "reachable s \<Longrightarrow> delegatebw ctx s from receiver net cpu transfer = Inr s' \<Longrightarrow> reachable s'"
| r_escrowbw:
    "reachable s \<Longrightarrow> escrowbw pk ctx s from receiver net cpu transfer period_count = Inr s'
       \<Longrightarrow> reachable s'"
| r_undelegatebw:
    "reachable s \<Longrightarrow> undelegatebw ctx s from receiver net cpu = Inr s' \<Longrightarrow> reachable s'"
| r_refund: "reachable s \<Longrightarrow> refund ctx s owner = Inr s' \<Longrightarrow> reachable s'"

inductive delegation_reachable :: "'m ledger \<Rightarrow> bool" where
  d_initial: "initial s \<Longrightarrow> delegation_reachable s"
| d_changebw:
    "delegation_reachable s \<Longrightarrow> changebw ctx s from receiver net cpu transfer = Inr s'
       \<Longrightarrow> delegation_reachable s'"
| d_delegatebw:
    "delegation_reachable s \<Longrightarrow> delegatebw ctx s from receiver net cpu transfer = Inr s'
       \<Longrightarrow> delegation_reachable s'"
| d_escrowbw:
    "delegation_reachable s
       \<Longrightarrow> escrowbw pk ctx s from receiver net cpu transfer period_count = Inr s'
       \<Longrightarrow> delegation_reachable s'"
| d_undelegatebw:
    "delegation_reachable s \<Longrightarrow> undelegatebw ctx s from receiver net cpu = Inr s'
       \<Longrightarrow> delegation_reachable s'"
| d_refund: "delegation_reachable s \<Longrightarrow> refund ctx s owner = Inr s' \<Longrightarrow> delegation_reachable s'"

text \<open>The invariants of the refund rows, of the delegation rows and of the totals rows.\<close>

definition refunds_ok :: "'m ledger \<Rightarrow> bool" where
  "refunds_ok s \<longleftrightarrow>
     (\<forall>k r. refunds s k = Some r \<longrightarrow>
        0 \<le> rr_net_amount r \<and> 0 \<le> rr_cpu_amount r
        \<and> \<not> (rr_net_amount r = 0 \<and> rr_cpu_amount r = 0))"

definition delband_ok :: "'m ledger \<Rightarrow> bool" where
  "delband_ok s \<longleftrightarrow>
     (\<forall>k r. delband s k = Some r \<longrightarrow>
        0 \<le> db_net_weight r \<and> 0 \<le> db_cpu_weight r
        \<and> \<not> (db_net_weight r = 0 \<and> db_cpu_weight r = 0))"

definition totals_ok :: "'m ledger \<Rightarrow> bool" where
  "totals_ok s \<longleftrightarrow>
     (\<forall>k r. userres s k = Some r \<longrightarrow>
        0 \<le> ur_net_weight r \<and> 0 \<le> ur_cpu_weight r
        \<and> \<not> (ur_net_weight r = 0 \<and> ur_cpu_weight r = 0 \<and> ur_ram_bytes r = 0))"

subsection \<open>Ledgers and contexts used in the examples\<close>

text \<open>The ledger before any action, with the markets open and an empty RAM market row.\<close>

definition genesis :: "int ledger" where
  "genesis = \<lparr>resources_market_open = True, total_ram_bytes_reserved = 0,
     total_ram_stake = 0, total_activated_stake = 0, rammarket = Some 0,
     userres = Map.empty, delband = Map.empty, refunds = Map.empty,
     escrow = (\<lambda>_. []), voters = Map.empty, deferred = Map.empty, effects = []\<rparr>"

text \<open>A market that hands out one byte per token and keeps count of the tokens it holds.\<close>

definition unit_price_convert :: "int convert" where
  "unit_price_convert m a dir = (case dir of ToRam \<Rightarrow> (m + a, a) | ToCore \<Rightarrow> (m - a, a))"

text \<open>A market that hands out one byte whatever it is given.\<close>

definition flat_convert :: "int convert" where
  "flat_convert m a dir = (m, 1)"

definition signed_by :: "account_name \<Rightarrow> time \<Rightarrow> chain_context" where
  "signed_by a t = \<lparr>now = t, auths = {a}, privileged = {}, min_activated_stake = 0\<rparr>"

text \<open>The ledger after \<open>bob\<close> was bought 995 bytes of RAM on \<open>genesis\<close>.\<close>

definition ram_owner_ledger :: "int ledger" where
  "ram_owner_ledger = genesis\<lparr>rammarket := Some 995, total_ram_bytes_reserved := 995,
     total_ram_stake := 995,
     userres := [(''bob'', ''bob'') \<mapsto>
       \<lparr>ur_owner = ''bob'', ur_net_weight = 0, ur_cpu_weight = 0, ur_ram_bytes = 995\<rparr>]\<rparr>"

text \<open>
  \<open>alice\<close> stakes 100 and 100 on herself at time 1000 (\<open>self_staked\<close>) and unstakes 50
  and 50 at time 2000 (\<open>refund_pending\<close>).
\<close>

definition self_staked :: "int ledger" where
  "self_staked = genesis\<lparr>
     userres := [(''alice'', ''alice'') \<mapsto>
       \<lparr>ur_owner = ''alice'', ur_net_weight = 100, ur_cpu_weight = 100, ur_ram_bytes = 0\<rparr>],
     delband := [(''alice'', ''alice'') \<mapsto>
       \<lparr>db_from = ''alice'', db_to = ''alice'', db_net_weight = 100, db_cpu_weight = 100\<rparr>],
     voters := [''alice'' \<mapsto>
       \<lparr>v_owner = ''alice'', v_staked = 200, v_proxy = [], v_producers = []\<rparr>],
     effects := [SetResourceLimits ''alice'' 0 100 100,
                 Transfer ''alice'' ''snax.stake'' 200 ''stake bandwidth'']\<rparr>"

definition refund_pending :: "int ledger" where
  "refund_pending = genesis\<lparr>
     userres := [(''alice'', ''alice'') \<mapsto>
       \<lparr>ur_owner = ''alice'', ur_net_weight = 50, ur_cpu_weight = 50, ur_ram_bytes = 0\<rparr>],
     delband := [(''alice'', ''alice'') \<mapsto>
       \<lparr>db_from = ''alice'', db_to = ''alice'', db_net_weight = 50, db_cpu_weight = 50\<rparr>],
     refunds := [(''alice'', ''alice'') \<mapsto>
       \<lparr>rr_owner = ''alice'', rr_request_time = 2000, rr_net_amount = 50, rr_cpu_amount = 50\<rparr>],
     voters := [''alice'' \<mapsto>
       \<lparr>v_owner = ''alice'', v_staked = 100, v_proxy = [], v_producers = []\<rparr>],
     deferred := [''alice'' \<mapsto> refund_delay],
     effects := [SetResourceLimits ''alice'' 0 100 100,
                 Transfer ''alice'' ''snax.stake'' 200 ''stake bandwidth'',
                 SetResourceLimits ''alice'' 0 50 50]\<rparr>"

text \<open>
  \<open>b1\<close> stakes 50 million tokens of each kind on \<open>carol\<close> at the base time of its
  vesting schedule.
\<close>

definition b1_staked :: "int ledger" where
  "b1_staked = genesis\<lparr>
     userres := [(''carol'', ''carol'') \<mapsto>
       \<lparr>ur_owner = ''carol'', ur_net_weight = 500000000000, ur_cpu_weight = 500000000000,
         ur_ram_bytes = 0\<rparr>],
     delband := [(''b1'', ''carol'') \<mapsto>
       \<lparr>db_from = ''b1'', db_to = ''carol'', db_net_weight = 500000000000,
         db_cpu_weight = 500000000000\<rparr>],
     voters := [''b1'' \<mapsto>
       \<lparr>v_owner = ''b1'', v_staked = 1000000000000, v_proxy = [], v_producers = []\<rparr>],
     effects := [SetResourceLimits ''carol'' 0 500000000000 500000000000,
                 Transfer ''b1'' ''snax.stake'' 1000000000000 ''stake bandwidth'']\<rparr>"

text \<open>
  \<open>alice\<close> stakes 50 and 50 on herself in escrow over 4 periods at time 1600000000
  (\<open>one_bucket\<close>) and again at time 1600000001 (\<open>two_buckets\<close>); the primary key of an escrow
  row is here its creation time.
\<close>

definition created_key :: "escrow_bandwidth \<Rightarrow> nat" where
  "created_key r = nat (eb_created r)"

definition bucket_of_alice :: "int \<Rightarrow> escrow_bandwidth" where
  "bucket_of_alice c = \<lparr>eb_owner = ''alice'', eb_initial_amount = 100, eb_amount = 100,
     eb_created = c, eb_period_count = 4\<rparr>"

definition one_bucket :: "int ledger" where
  "one_bucket = genesis\<lparr>
     userres := [(''alice'', ''alice'') \<mapsto>
       \<lparr>ur_owner = ''alice'', ur_net_weight = 50, ur_cpu_weight = 50, ur_ram_bytes = 0\<rparr>],
     delband := [(''alice'', ''alice'') \<mapsto>
       \<lparr>db_from = ''alice'', db_to = ''alice'', db_net_weight = 50, db_cpu_weight = 50\<rparr>],
     escrow := (\<lambda>_. [])(''alice'' := [(1600000000, bucket_of_alice 1600000000)]),
     voters := [''alice'' \<mapsto>
       \<lparr>v_owner = ''alice'', v_staked = 100, v_proxy = [], v_producers = []\<rparr>],
     effects := [SetResourceLimits ''alice'' 0 50 50,
                 Transfer ''alice'' ''snax.stake'' 100 ''stake bandwidth'']\<rparr>"

definition two_buckets :: "int ledger" where
  "two_buckets = genesis\<lparr>
     userres := [(''alice'', ''alice'') \<mapsto>
       \<lparr>ur_owner = ''alice'', ur_net_weight = 100, ur_cpu_weight = 100, ur_ram_bytes = 0\<rparr>],
     delband := [(''alice'', ''alice'') \<mapsto>
       \<lparr>db_from = ''alice'', db_to = ''alice'', db_net_weight = 100, db_cpu_weight = 100\<rparr>],
     escrow := (\<lambda>_. [])(''alice'' :=
       [(1600000000, bucket_of_alice 1600000000), (1600000001, bucket_of_alice 1600000001)]),
     voters := [''alice'' \<mapsto>
       \<lparr>v_owner = ''alice'', v_staked = 200, v_proxy = [], v_producers = []\<rparr>],
     effects := [SetResourceLimits ''alice'' 0 50 50,
                 Transfer ''alice'' ''snax.stake'' 100 ''stake bandwidth'',
                 SetResourceLimits ''alice'' 0 100 100,
                 Transfer ''alice'' ''snax.stake'' 100 ''stake bandwidth'']\<rparr>"

text \<open>
  With her refund pending, \<open>alice\<close> stakes 10 and 10 on \<open>bob\<close> at time 3000
  (\<open>refund_row_kept\<close>).
\<close>

definition refund_row_kept :: "int ledger" where
  "refund_row_kept = genesis\<lparr>
     userres := [(''alice'', ''alice'') \<mapsto>
         \<lparr>ur_owner = ''alice'', ur_net_weight = 50, ur_cpu_weight = 50, ur_ram_bytes = 0\<rparr>,
       (''bob'', ''bob'') \<mapsto>
         \<lparr>ur_owner = ''bob'', ur_net_weight = 10, ur_cpu_weight = 10, ur_ram_bytes = 0\<rparr>],
     delband := [(''alice'', ''alice'') \<mapsto>
         \<lparr>db_from = ''alice'', db_to = ''alice'', db_net_weight = 50, db_cpu_weight = 50\<rparr>,
       (''alice'', ''bob'') \<mapsto>
         \<lparr>db_from = ''alice'', db_to = ''bob'', db_net_weight = 10, db_cpu_weight = 10\<rparr>],
     refunds := [(''alice'', ''alice'') \<mapsto>
       \<lparr>rr_owner = ''alice'', rr_request_time = 2000, rr_net_amount = 50, rr_cpu_amount = 50\<rparr>],
     voters := [''alice'' \<mapsto>
       \<lparr>v_owner = ''alice'', v_staked = 120, v_proxy = [], v_producers = []\<rparr>],
     effects := [SetResourceLimits ''alice'' 0 100 100,
                 Transfer ''alice'' ''snax.stake'' 200 ''stake bandwidth'',
                 SetResourceLimits ''alice'' 0 50 50,
                 SetResourceLimits ''bob'' 0 10 10,
                 Transfer ''alice'' ''snax.stake'' 20 ''stake bandwidth'']\<rparr>"

text \<open>\<open>alice\<close> stakes 5 and 3 on \<open>bob\<close> at time 1000.\<close>

definition alice_to_bob :: "int ledger" where
  "alice_to_bob = genesis\<lparr>
     userres := [(''bob'', ''bob'') \<mapsto>
       \<lparr>ur_owner = ''bob'', ur_net_weight = 5, ur_cpu_weight = 3, ur_ram_bytes = 0\<rparr>],
     delband := [(''alice'', ''bob'') \<mapsto>
       \<lparr>db_from = ''alice'', db_to = ''bob'', db_net_weight = 5, db_cpu_weight = 3\<rparr>],
     voters := [''alice'' \<mapsto>
       \<lparr>v_owner = ''alice'', v_staked = 8, v_proxy = [], v_producers = []\<rparr>],
     effects := [SetResourceLimits ''bob'' 0 5 3,
                 Transfer ''alice'' ''snax.stake'' 8 ''stake bandwidth'']\<rparr>"

section \<open>Properties\<close>

subsection \<open>The RAM fee\<close>

lemma tdiv_nonneg: "0 \<le> a \<Longrightarrow> 0 < b \<Longrightarrow> tdiv a b = a div b"
  by (cases "a = 0") (simp_all add: tdiv_def)

lemma sellram_fee_pos: "0 < q \<Longrightarrow> sellram_fee q = (q + 199) div 200"
  by (simp add: sellram_fee_def tdiv_nonneg)

lemma div_200_round_up:
  "(q + 199) div 200 = q div 200 + (if q mod 200 = 0 then 0 else (1::int))"
proof -
  have "q + 199 = (q mod 200 + 199) + (q div 200) * 200" by simp
  then have "(q + 199) div 200 = ((q mod 200 + 199) + (q div 200) * 200) div 200"
    by (rule arg_cong)
  also have "\<dots> = q div 200 + (q mod 200 + 199) div 200"
    by (simp only: div_mult_self1 [of 200 "q mod 200 + 199" "q div 200", simplified])
  finally have e: "(q + 199) div 200 = q div 200 + (q mod 200 + 199) div 200" .
  have r: "0 \<le> q mod 200" "q mod 200 < 200" by simp_all
  show ?thesis
  proof (cases "q mod 200 = 0")
    case True
    then show ?thesis using e by simp
  next
    case False
    with r have "200 \<le> q mod 200 + 199" "q mod 200 + 199 - 200 < 200" "0 \<le> q mod 200 + 199 - 200"
      by linarith+
    then have "(q mod 200 + 199) div 200 = 1"
      by (simp add: div_pos_geq [of 200 "q mod 200 + 199"] div_pos_pos_trivial)
    with False e show ?thesis by simp
  qed
qed

lemma sellram_fee_ceiling: "0 < q \<Longrightarrow> sellram_fee q = \<lceil>real_of_int q / 200\<rceil>"
proof -
  assume q: "0 < q"
  have "\<lceil>real_of_int q / real_of_int 200\<rceil> = - (- q div 200)"
    by (rule ceiling_divide_eq_div)
  also have "\<dots> = (q + 199) div 200"
    by (simp add: div_200_round_up zdiv_zminus1_eq_if)
  finally show ?thesis using q by (simp add: sellram_fee_pos)
qed

lemma sellram_fee_bounds:
  assumes q: "1 \<le> q"
  shows "1 \<le> sellram_fee q" "sellram_fee q \<le> q" "sellram_fee q = q \<longleftrightarrow> q = 1"
proof -
  define k r where "k = q div 200" and "r = q mod 200"
  have d: "q = 200 * k + r" and r: "0 \<le> r" "r < 200"
    by (simp_all add: k_def r_def)
  have f: "sellram_fee q = k + (if r = 0 then 0 else 1)"
    using q by (simp add: sellram_fee_pos div_200_round_up k_def r_def)
  have "1 \<le> k + (if r = 0 then 0 else 1)" using q d r by (cases "r = 0") simp_all
  then show "1 \<le> sellram_fee q" by (simp only: f)
  have "k + (if r = 0 then 0 else 1) \<le> 200 * k + r" using q d r by (cases "r = 0") simp_all
  then show "sellram_fee q \<le> q" by (simp only: f d [symmetric])
  have k: "0 \<le> k" using q by (simp add: k_def pos_imp_zdiv_nonneg_iff)
  have "k + (if r = 0 then 0 else 1) = 200 * k + r \<longleftrightarrow> 200 * k + r = 1"
  proof (cases "k = 0")
    case True
    then show ?thesis using q d by auto
  next
    case False
    with k have "1 \<le> k" by simp
    with r show ?thesis by (cases "r = 0") simp_all
  qed
  then show "sellram_fee q = q \<longleftrightarrow> q = 1" by (simp only: f d [symmetric])
qed

lemma int64_in_range: "- (2 ^ 63) \<le> x \<Longrightarrow> x < 2 ^ 63 \<Longrightarrow> int64 x = x"
proof -
  assume "- (2 ^ 63) \<le> x" "x < 2 ^ 63"
  then have "0 \<le> x + 2 ^ 63" "x + 2 ^ 63 < 2 ^ 64" by simp_all
  then have "(x + 2 ^ 63) mod 2 ^ 64 = x + 2 ^ 63" by (rule mod_pos_pos_trivial)
  then show ?thesis by (simp add: int64_def)
qed

lemma ram_fee_below_wrap:
  "0 < q \<Longrightarrow> q \<le> 9223372036854775608 \<Longrightarrow> ram_fee q = sellram_fee q"
  by (simp add: ram_fee_def sellram_fee_def int64_in_range)

text \<open>
  As long as \<open>quant + 199\<close> fits in 64 bits, that is up to \<open>2^63 - 200\<close>, the fee is as
  the comment in the source says.
\<close>

lemma buyram_fee_range_below_wrap:
  assumes "1 \<le> quant" and "quant \<le> 9223372036854775608"
  shows "ram_fee quant = (quant + 199) div 200
     \<and> 1 \<le> ram_fee quant \<and> ram_fee quant \<le> quant
     \<and> (ram_fee quant = quant \<longleftrightarrow> quant = 1)
     \<and> (quant = 1 \<longrightarrow> int64 (quant - ram_fee quant) = 0 \<and> ram_fee quant = 1)"
proof -
  from assms have e: "ram_fee quant = sellram_fee quant" by (simp add: ram_fee_below_wrap)
  have f: "sellram_fee quant = (quant + 199) div 200"
    using assms(1) by (simp add: sellram_fee_pos)
  have z: "quant = 1 \<longrightarrow> int64 (quant - sellram_fee quant) = 0 \<and> sellram_fee quant = 1"
    by (simp add: sellram_fee_def tdiv_def int64_def)
  from sellram_fee_bounds [OF assms(1)] f z show ?thesis
    unfolding e by blast
qed

text \<open>
  Claim C10. The source adds 199 to the amount in 64 bits. For the largest amount the
  sum wraps around: the fee is negative, not between 1 and the amount, and what is left
  after the fee is negative as well.
\<close>

theorem ram_fee_wraps_at_int64_max:
  "ram_fee 9223372036854775807 = - 46116860184273878
   \<and> \<not> 1 \<le> ram_fee 9223372036854775807
   \<and> int64 (9223372036854775807 - ram_fee 9223372036854775807) = - 9177255176670501931"
proof -
  have f: "ram_fee 9223372036854775807 = - 46116860184273878"
    by (simp add: ram_fee_def int64_def tdiv_def)
  show ?thesis unfolding f by (simp add: int64_def)
qed

theorem ram_fee_wraps_at_int64_max_witness:
  "ram_fee 9223372036854775807 < 1 \<and> (1::int) \<le> 9223372036854775807"
  using ram_fee_wraps_at_int64_max by simp

subsection \<open>buyram and sellram\<close>

text \<open>
  Up to \<open>2^63 - 200\<close> a \<open>buyram\<close> that succeeds charges the fee
  \<open>(quant + 199) / 200\<close>, the ceiling of \<open>quant / 200\<close>, converts \<open>quant - fee\<close>, and got a
  positive number of bytes.
\<close>

lemma buyram_fee_and_bytes_below_wrap:
  assumes ok: "buyram conv ctx s payer receiver quant = Inr s'"
    and range: "quant \<le> 9223372036854775608"
  shows "0 < quant
    \<and> ram_fee quant = (quant + 199) div 200
    \<and> ram_fee quant = \<lceil>real_of_int quant / 200\<rceil>
    \<and> (\<exists>market. rammarket s = Some market
          \<and> 0 < snd (conv market (quant - ram_fee quant) ToRam)
          \<and> rammarket s' = Some (fst (conv market (quant - ram_fee quant) ToRam))
          \<and> total_ram_bytes_reserved s' =
              total_ram_bytes_reserved s + snd (conv market (quant - ram_fee quant) ToRam))
    \<and> take 2 (drop (length (effects s)) (effects s')) =
         [Transfer payer ''snax.ram'' (quant - ram_fee quant) ''buy ram'',
          Transfer payer ''snax.ramfee'' (ram_fee quant) ''ram fee'']"
proof -
  from ok have q: "0 < quant"
    by (simp add: buyram_def split: if_splits)
  with range have e: "ram_fee quant = sellram_fee quant" by (simp add: ram_fee_below_wrap)
  from q have fee: "0 < ram_fee quant" "ram_fee quant \<le> quant"
    using sellram_fee_bounds(1,2) [of quant] by (simp_all add: e)
  with range have w: "int64 (quant - ram_fee quant) = quant - ram_fee quant"
    by (simp add: int64_in_range)
  from ok q obtain market where m: "rammarket s = Some market"
    by (cases "rammarket s") (simp_all add: buyram_def Let_def split: if_splits)
  obtain market' bytes_out where c: "conv market (quant - ram_fee quant) ToRam = (market', bytes_out)"
    by (cases "conv market (quant - ram_fee quant) ToRam")
  from ok q m c w have b: "0 < bytes_out"
    by (simp add: buyram_def Let_def split: if_splits)
  from ok q m c b fee(1) w have
    "rammarket s' = Some market'"
    "total_ram_bytes_reserved s' = total_ram_bytes_reserved s + bytes_out"
    "take 2 (drop (length (effects s)) (effects s')) =
         [Transfer payer ''snax.ram'' (quant - ram_fee quant) ''buy ram'',
          Transfer payer ''snax.ramfee'' (ram_fee quant) ''ram fee'']"
    by (auto simp add: buyram_def Let_def split: if_splits)
  with q m c b show ?thesis
    by (simp add: e sellram_fee_pos sellram_fee_ceiling [symmetric])
qed

text \<open>
  Claim C4. For the largest amount the fee that \<open>buyram\<close> computes is negative, where
  the ceiling of \<open>quant / 200\<close> is 46116860184273880. No fee is transferred, and the
  market is asked to convert a negative amount: a market that returns a positive number
  of bytes for it lets the action succeed, one that returns the amount as bytes makes it
  abort.
\<close>

theorem buyram_fee_wraps_at_int64_max:
  "(\<exists>s'. buyram flat_convert (signed_by ''alice'' 0) genesis ''alice'' ''bob''
            9223372036854775807 = Inr s'
       \<and> effects s' = [Transfer ''alice'' ''snax.ram'' (- 9177255176670501931) ''buy ram'',
                        SetResourceLimits ''bob'' 1 0 0])
   \<and> buyram unit_price_convert (signed_by ''alice'' 0) genesis ''alice'' ''bob''
        9223372036854775807 = Inl (AssertFailed ''must reserve a positive amount'')
   \<and> (9223372036854775807 + 199) div 200 = (46116860184273880 :: int)"
proof -
  have f: "ram_fee 9223372036854775807 = - 46116860184273878"
    by (simp add: ram_fee_def int64_def tdiv_def)
  have a: "int64 9269488897039049685 = - 9177255176670501931"
    by (simp add: int64_def)
  show ?thesis
    by (simp add: buyram_def Let_def f a genesis_def signed_by_def flat_convert_def
        unit_price_convert_def)
qed

theorem buyram_fee_wraps_at_int64_max_witness:
  "\<exists>s'. buyram flat_convert (signed_by ''alice'' 0) genesis ''alice'' ''bob''
            9223372036854775807 = Inr s'
     \<and> Transfer ''alice'' ''snax.ramfee'' 46116860184273880 ''ram fee'' \<notin> set (effects s')"
proof -
  from buyram_fee_wraps_at_int64_max obtain s' where
    "buyram flat_convert (signed_by ''alice'' 0) genesis ''alice'' ''bob''
            9223372036854775807 = Inr s'"
    "effects s' = [Transfer ''alice'' ''snax.ram'' (- 9177255176670501931) ''buy ram'',
                        SetResourceLimits ''bob'' 1 0 0]"
    by blast
  then show ?thesis by simp
qed

text \<open>
  Claim C5. A \<open>sellram\<close> that succeeds has \<open>bytes > 0\<close>, a resource row of the account
  with at least that many bytes, and a converted amount greater than 1 (the action aborts
  otherwise); the seller is charged a fee of the ceiling of \<open>tokens_out / 200\<close>.
\<close>

theorem sellram_requirements:
  assumes ok: "sellram conv ctx s account bytes = Inr s'"
  shows "0 < bytes
    \<and> (\<exists>row market. userres s (account, account) = Some row \<and> bytes \<le> ur_ram_bytes row
          \<and> rammarket s = Some market
          \<and> 1 < snd (conv market bytes ToCore)
          \<and> sellram_fee (snd (conv market bytes ToCore))
              = \<lceil>real_of_int (snd (conv market bytes ToCore)) / 200\<rceil>
          \<and> drop (Suc (length (effects s))) (effects s') =
               [Transfer ''snax.ram'' account (snd (conv market bytes ToCore)) ''sell ram'',
                Transfer account ''snax.ramfee'' (sellram_fee (snd (conv market bytes ToCore)))
                  ''sell ram fee''])"
proof -
  from ok have b: "0 < bytes"
    by (simp add: sellram_def split: if_splits)
  from ok b obtain row where r: "userres s (account, account) = Some row"
    by (cases "userres s (account, account)") (simp_all add: sellram_def split: if_splits)
  from ok b r have q: "bytes \<le> ur_ram_bytes row"
    by (simp add: sellram_def split: if_splits)
  from ok b r q obtain market where m: "rammarket s = Some market"
    by (cases "rammarket s") (simp_all add: sellram_def split: if_splits)
  obtain market' tokens_out where c: "conv market bytes ToCore = (market', tokens_out)"
    by (cases "conv market bytes ToCore")
  from ok b r q m c have t: "1 < tokens_out"
    by (simp add: sellram_def Let_def split: if_splits)
  then have fee: "0 < sellram_fee tokens_out" using sellram_fee_bounds(1) [of tokens_out] by simp
  from ok b r q m c t fee have
    "drop (Suc (length (effects s))) (effects s') =
       [Transfer ''snax.ram'' account tokens_out ''sell ram'',
        Transfer account ''snax.ramfee'' (sellram_fee tokens_out) ''sell ram fee'']"
    by (auto simp add: sellram_def Let_def split: if_splits)
  with b r q m c t show ?thesis
    by (simp add: sellram_fee_ceiling [symmetric])
qed

theorem sellram_requirements_witness:
  "\<exists>s'. sellram unit_price_convert (signed_by ''bob'' 0) ram_owner_ledger ''bob'' 500 = Inr s'
     \<and> effects s' = [SetResourceLimits ''bob'' 495 0 0,
                      Transfer ''snax.ram'' ''bob'' 500 ''sell ram'',
                      Transfer ''bob'' ''snax.ramfee'' 3 ''sell ram fee'']"
proof -
  have f: "sellram_fee 500 = 3" by (simp add: sellram_fee_def tdiv_def)
  have "\<exists>s'. sellram unit_price_convert (signed_by ''bob'' 0) ram_owner_ledger ''bob'' 500 = Inr s'"
    by (simp add: sellram_def f ram_owner_ledger_def genesis_def signed_by_def
        unit_price_convert_def)
  then obtain s' where
    h: "sellram unit_price_convert (signed_by ''bob'' 0) ram_owner_ledger ''bob'' 500 = Inr s'"
    by blast
  from h have "take 1 (effects s') = [SetResourceLimits ''bob'' 495 0 0]"
    by (auto simp add: sellram_def f ram_owner_ledger_def genesis_def signed_by_def
        unit_price_convert_def)
  moreover from sellram_requirements [OF h] have
    "drop 1 (effects s') = [Transfer ''snax.ram'' ''bob'' 500 ''sell ram'',
                            Transfer ''bob'' ''snax.ramfee'' 3 ''sell ram fee'']"
    by (simp add: f ram_owner_ledger_def genesis_def unit_price_convert_def)
  ultimately have "effects s' = [SetResourceLimits ''bob'' 495 0 0,
                      Transfer ''snax.ram'' ''bob'' 500 ''sell ram'',
                      Transfer ''bob'' ''snax.ramfee'' 3 ''sell ram fee'']"
    by (metis append_take_drop_id append_Cons append_Nil)
  with h show ?thesis by blast
qed

subsection \<open>The blocks of changebw\<close>

lemma changebw_delband_frame:
  assumes "changebw_delband s swap from receiver net cpu = Inr s'"
  shows "userres s' = userres s" "refunds s' = refunds s" "voters s' = voters s"
    "deferred s' = deferred s" "escrow s' = escrow s" "effects s' = effects s"
    "total_activated_stake s' = total_activated_stake s"
    "resources_market_open s' = resources_market_open s"
  using assms
  by (auto simp add: changebw_delband_def Let_def split: if_splits option.splits)

lemma changebw_totals_frame:
  assumes "changebw_totals s swap from receiver net cpu = Inr s'"
  shows "delband s' = delband s" "refunds s' = refunds s" "voters s' = voters s"
    "deferred s' = deferred s" "escrow s' = escrow s"
    "total_activated_stake s' = total_activated_stake s"
    "resources_market_open s' = resources_market_open s"
  using assms
  by (auto simp add: changebw_totals_def Let_def split: if_splits option.splits)

lemma changebw_refund_frame:
  assumes "changebw_refund ctx s source from receiver net cpu transfer = Inr s'"
  shows "delband s' = delband s" "userres s' = userres s" "voters s' = voters s"
    "escrow s' = escrow s"
    "total_activated_stake s' = total_activated_stake s"
    "resources_market_open s' = resources_market_open s"
  using assms
  by (auto simp add: changebw_refund_def Let_def split: if_splits sum.splits prod.splits)

lemma changebw_voters_frame:
  assumes "changebw_voters ctx s swap from receiver net cpu = Inr s'"
  shows "delband s' = delband s" "userres s' = userres s" "refunds s' = refunds s"
    "deferred s' = deferred s" "escrow s' = escrow s"
    "total_activated_stake s' = total_activated_stake s"
    "resources_market_open s' = resources_market_open s"
  using assms
  by (auto simp add: changebw_voters_def Let_def split: if_splits option.splits sum.splits)

lemma changebw_steps:
  assumes "changebw ctx s from0 receiver net cpu transfer = Inr s'"
  obtains s1 s2 s3 where
    "changebw_delband s (net < 0 \<and> cpu < 0) (if transfer then receiver else from0) receiver net cpu
       = Inr s1"
    "changebw_totals s1 (net < 0 \<and> cpu < 0) (if transfer then receiver else from0) receiver net cpu
       = Inr s2"
    "changebw_refund ctx s2 from0 (if transfer then receiver else from0) receiver net cpu transfer
       = Inr s3"
    "changebw_voters ctx s3 (net < 0 \<and> cpu < 0) (if transfer then receiver else from0) receiver
       net cpu = Inr s'"
  using assms
  by (auto simp add: changebw_def Let_def split: if_splits sum.splits)

lemma delegatebw_changebw:
  "delegatebw ctx s from receiver net cpu transfer = Inr s'
     \<Longrightarrow> changebw ctx s from receiver net cpu transfer = Inr s'"
  by (simp add: delegatebw_def split: if_splits)

lemma escrowbw_delegatebw:
  assumes "escrowbw pk ctx s from receiver net cpu transfer period_count = Inr s'"
  obtains s1 where "delegatebw ctx s from receiver net cpu transfer = Inr s1"
    and "refunds s' = refunds s1" and "delband s' = delband s1" and "userres s' = userres s1"
    and "deferred s' = deferred s1" and "voters s' = voters s1"
  using assms
  by (auto simp add: escrowbw_def Let_def split: sum.splits if_splits)

lemma undelegatebw_changebw:
  assumes "undelegatebw ctx s from receiver net cpu = Inr s'"
  obtains rows where
    "changebw ctx (s\<lparr>escrow := (escrow s)(receiver := rows)\<rparr>) from receiver (- net) (- cpu) False
       = Inr s'"
  using assms
  by (auto simp add: undelegatebw_def Let_def split: sum.splits if_splits option.splits prod.splits)

subsection \<open>The preconditions of changebw\<close>

text \<open>
  Claim C2. A \<open>changebw\<close> that succeeds has a non-zero delta and
  \<open>|net + cpu| \<ge> max |net| |cpu|\<close>; with deltas of strictly opposite signs it aborts at
  one of the checks that precede the first table access.
\<close>

theorem changebw_same_sign_deltas:
  "(changebw ctx s from receiver net cpu transfer = Inr s' \<longrightarrow>
      (net \<noteq> 0 \<or> cpu \<noteq> 0) \<and> max \<bar>net\<bar> \<bar>cpu\<bar> \<le> \<bar>net + cpu\<bar>)
   \<and> ((net < 0 \<and> 0 < cpu) \<or> (0 < net \<and> cpu < 0) \<longrightarrow>
      changebw ctx s from receiver net cpu transfer \<in>
        {Inl (MissingAuthority from),
         Inl (AssertFailed
           ''net and cpu market must be open or user must be privileged to change bandwidth''),
         Inl (AssertFailed ''net and cpu deltas cannot be opposite signs'')})"
proof (intro conjI impI)
  assume ok: "changebw ctx s from receiver net cpu transfer = Inr s'"
  then show "net \<noteq> 0 \<or> cpu \<noteq> 0"
    by (auto simp add: changebw_def Let_def split: if_splits)
  from ok show "max \<bar>net\<bar> \<bar>cpu\<bar> \<le> \<bar>net + cpu\<bar>"
    by (simp add: changebw_def Let_def split: if_splits)
next
  assume opp: "(net < 0 \<and> 0 < cpu) \<or> (0 < net \<and> cpu < 0)"
  then have f: "(net < 0 \<and> cpu < 0) = False" "(net \<noteq> 0 \<or> cpu \<noteq> 0) = True"
    "(max \<bar>net\<bar> \<bar>cpu\<bar> \<le> \<bar>net + cpu\<bar>) = False"
    by auto
  show "changebw ctx s from receiver net cpu transfer \<in>
        {Inl (MissingAuthority from),
         Inl (AssertFailed
           ''net and cpu market must be open or user must be privileged to change bandwidth''),
         Inl (AssertFailed ''net and cpu deltas cannot be opposite signs'')}"
    unfolding changebw_def Let_def f by simp
qed

theorem changebw_same_sign_deltas_witness:
  "changebw (signed_by ''alice'' 0) genesis ''alice'' ''bob'' 5 (- 3) False
     = Inl (AssertFailed ''net and cpu deltas cannot be opposite signs'')
   \<and> (\<exists>s'. changebw (signed_by ''alice'' 0) genesis ''alice'' ''bob'' 5 3 False = Inr s')
   \<and> max \<bar>5\<bar> \<bar>3\<bar> \<le> \<bar>5 + (3::int)\<bar>"
proof -
  have a: "''alice'' \<in> auths (signed_by ''alice'' 0)" "resources_market_open genesis"
    by (simp_all add: signed_by_def genesis_def)
  from changebw_same_sign_deltas [of "signed_by ''alice'' 0" genesis "''alice''" "''bob''" 5 "- 3" False]
  have 1: "changebw (signed_by ''alice'' 0) genesis ''alice'' ''bob'' 5 (- 3) False
     = Inl (AssertFailed ''net and cpu deltas cannot be opposite signs'')"
    using a by (auto simp add: changebw_def)
  have 2: "\<exists>s'. changebw (signed_by ''alice'' 0) genesis ''alice'' ''bob'' 5 3 False = Inr s'"
    by (simp add: changebw_def changebw_delband_def changebw_totals_def changebw_refund_def
        refund_bookkeeping_def changebw_voters_def signed_by_def genesis_def Let_def)
  then obtain s' where h: "changebw (signed_by ''alice'' 0) genesis ''alice'' ''bob'' 5 3 False = Inr s'"
    by blast
  from changebw_same_sign_deltas [of "signed_by ''alice'' 0" genesis "''alice''" "''bob''" 5 3 False s'] h
  have "max \<bar>5\<bar> \<bar>3\<bar> \<le> \<bar>5 + (3::int)\<bar>" by blast
  with 1 2 show ?thesis by blast
qed

subsection \<open>The delegation row that undelegatebw reads; refund\<close>

lemma changebw_delband_other_keys:
  assumes "changebw_delband s swap from receiver net cpu = Inr s'"
    and "swap \<longrightarrow> net < 0"
    and "k \<noteq> (if swap then (receiver, from) else (from, receiver))"
  shows "delband s' k = delband s k"
  using assms
  by (auto simp add: changebw_delband_def Let_def split: if_splits option.splits)

lemma changebw_delband_fresh:
  assumes "changebw_delband s False from receiver net cpu = Inr s'"
    and "delband s (from, receiver) = None" and "0 < net + cpu"
  shows "delband s' (from, receiver) =
    Some \<lparr>db_from = from, db_to = receiver, db_net_weight = net, db_cpu_weight = cpu\<rparr>"
  using assms
  by (auto simp add: changebw_delband_def Let_def split: if_splits option.splits)

lemma delegatebw_writes_row:
  assumes ok0: "delegatebw ctx s from receiver net cpu transfer = Inr s'"
  shows "(\<forall>k. k \<noteq> (if transfer then receiver else from, receiver) \<longrightarrow> delband s' k = delband s k)
    \<and> (delband s (if transfer then receiver else from, receiver) = None \<longrightarrow>
         delband s' (if transfer then receiver else from, receiver) =
           Some \<lparr>db_from = (if transfer then receiver else from), db_to = receiver,
                 db_net_weight = net, db_cpu_weight = cpu\<rparr>)"
proof (intro conjI impI allI)
  fix k
  assume k: "k \<noteq> (if transfer then receiver else from, receiver)"
  from ok0 have pos: "0 \<le> net" "0 \<le> cpu"
    and cb: "changebw ctx s from receiver net cpu transfer = Inr s'"
    by (simp_all add: delegatebw_def split: if_splits)
  from pos have sw: "(net < 0 \<and> cpu < 0) = False" by simp
  from cb obtain s1 s2 s3 where
    1: "changebw_delband s False (if transfer then receiver else from) receiver net cpu = Inr s1"
    and 2: "changebw_totals s1 False (if transfer then receiver else from) receiver net cpu = Inr s2"
    and 3: "changebw_refund ctx s2 from (if transfer then receiver else from) receiver net cpu transfer = Inr s3"
    and 4: "changebw_voters ctx s3 False (if transfer then receiver else from) receiver net cpu = Inr s'"
    by (rule changebw_steps) (simp only: sw)
  have "delband s' k = delband s1 k"
    by (simp add: changebw_voters_frame(1) [OF 4] changebw_refund_frame(1) [OF 3]
        changebw_totals_frame(1) [OF 2])
  also have "\<dots> = delband s k"
    using changebw_delband_other_keys [OF 1, of k] k by simp
  finally show "delband s' k = delband s k" .
next
  assume fresh: "delband s (if transfer then receiver else from, receiver) = None"
  from ok0 have pos: "0 \<le> net" "0 \<le> cpu" "0 < net + cpu"
    and cb: "changebw ctx s from receiver net cpu transfer = Inr s'"
    by (simp_all add: delegatebw_def split: if_splits)
  from pos have sw: "(net < 0 \<and> cpu < 0) = False" by simp
  from cb obtain s1 s2 s3 where
    1: "changebw_delband s False (if transfer then receiver else from) receiver net cpu = Inr s1"
    and 2: "changebw_totals s1 False (if transfer then receiver else from) receiver net cpu = Inr s2"
    and 3: "changebw_refund ctx s2 from (if transfer then receiver else from) receiver net cpu transfer = Inr s3"
    and 4: "changebw_voters ctx s3 False (if transfer then receiver else from) receiver net cpu = Inr s'"
    by (rule changebw_steps) (simp only: sw)
  have "delband s' = delband s1"
    by (simp add: changebw_voters_frame(1) [OF 4] changebw_refund_frame(1) [OF 3]
        changebw_totals_frame(1) [OF 2])
  then show "delband s' (if transfer then receiver else from, receiver) =
               Some \<lparr>db_from = (if transfer then receiver else from), db_to = receiver,
                     db_net_weight = net, db_cpu_weight = cpu\<rparr>"
    using changebw_delband_fresh [OF 1 fresh pos(3)] by simp
qed

lemma escrow_scan_not_owned:
  "owned_buckets from rows = [] \<Longrightarrow> escrow_scan from t req avail rows = Inr (avail, rows)"
proof (induction rows)
  case Nil
  then show ?case by simp
next
  case (Cons kr rows)
  obtain k r where kr: "kr = (k, r)" by (cases kr)
  from Cons.prems have "eb_owner r \<noteq> from" "owned_buckets from rows = []"
    by (auto simp add: owned_buckets_def kr split: if_splits)
  with Cons.IH show ?case by (simp add: kr)
qed

lemma undelegatebw_with_row:
  assumes row: "delband s (receiver, from) = Some row"
    and pos: "0 \<le> cpu" "0 \<le> net" "0 < cpu + net"
  shows "undelegatebw ctx s from receiver net cpu =
    (case escrow_scan from (uint (now ctx)) (net + cpu)
            (db_net_weight row + db_cpu_weight row) (snd (lower_bound_1 (escrow s receiver))) of
       Inl e \<Rightarrow> Inl e
     | Inr (a, rows') \<Rightarrow>
         if a < net + cpu
           then Inl (AssertFailed ''cant unstake this amount for account at the moment'')
         else if total_activated_stake s < min_activated_stake ctx
           then Inl (AssertFailed
             ''cannot undelegate bandwidth until the chain is activated (at least 10% of all tokens participate in voting)'')
         else changebw ctx
                (s\<lparr>escrow := (escrow s)
                     (receiver := fst (lower_bound_1 (escrow s receiver)) @ rows')\<rparr>)
                from receiver (- net) (- cpu) False)"
  using row pos
  by (simp add: undelegatebw_def case_prod_beta not_le split: sum.splits)

lemma changebw_delband_swap_row:
  assumes "changebw_delband s True from receiver net cpu = Inr s'"
    and "delband s (receiver, from) = Some row"
  shows "delband s' (receiver, from) =
      (if db_net_weight row + net = 0 \<and> db_cpu_weight row + cpu = 0 then None
       else Some (row\<lparr>db_net_weight := db_net_weight row + net,
                       db_cpu_weight := db_cpu_weight row + cpu\<rparr>))"
    and "0 \<le> db_net_weight row + net" and "0 \<le> db_cpu_weight row + cpu"
    and "k \<noteq> (receiver, from) \<Longrightarrow> delband s' k = delband s k"
  using assms
  by (auto simp add: changebw_delband_def Let_def split: if_splits)

lemma undelegatebw_changes_reverse_row:
  assumes ok: "undelegatebw ctx s from receiver net cpu = Inr s'"
    and row: "delband s (receiver, from) = Some row"
    and pos: "0 < net" "0 < cpu"
  shows "delband s' (receiver, from) =
      (if db_net_weight row - net = 0 \<and> db_cpu_weight row - cpu = 0 then None
       else Some (row\<lparr>db_net_weight := db_net_weight row - net,
                       db_cpu_weight := db_cpu_weight row - cpu\<rparr>))
    \<and> net \<le> db_net_weight row \<and> cpu \<le> db_cpu_weight row
    \<and> (\<forall>k. k \<noteq> (receiver, from) \<longrightarrow> delband s' k = delband s k)"
proof -
  from ok obtain rows where
    c: "changebw ctx (s\<lparr>escrow := (escrow s)(receiver := rows)\<rparr>) from receiver (- net) (- cpu)
          False = Inr s'"
    by (rule undelegatebw_changebw)
  from pos have sw: "(- net < 0 \<and> - cpu < 0) = True" by simp
  from c obtain s1 s2 s3 where
    1: "changebw_delband (s\<lparr>escrow := (escrow s)(receiver := rows)\<rparr>) True from receiver
          (- net) (- cpu) = Inr s1"
    and 2: "changebw_totals s1 True from receiver (- net) (- cpu) = Inr s2"
    and 3: "changebw_refund ctx s2 from from receiver (- net) (- cpu) False = Inr s3"
    and 4: "changebw_voters ctx s3 True from receiver (- net) (- cpu) = Inr s'"
    by (rule changebw_steps) (simp only: sw if_False)
  have d: "delband s' = delband s1"
    by (simp add: changebw_voters_frame(1) [OF 4] changebw_refund_frame(1) [OF 3]
        changebw_totals_frame(1) [OF 2])
  have row': "delband (s\<lparr>escrow := (escrow s)(receiver := rows)\<rparr>) (receiver, from) = Some row"
    using row by simp
  note w = changebw_delband_swap_row [OF 1 row']
  from w(1,2,3) have "delband s' (receiver, from) =
      (if db_net_weight row - net = 0 \<and> db_cpu_weight row - cpu = 0 then None
       else Some (row\<lparr>db_net_weight := db_net_weight row - net,
                       db_cpu_weight := db_cpu_weight row - cpu\<rparr>))"
    "net \<le> db_net_weight row" "cpu \<le> db_cpu_weight row"
    by (simp_all add: d)
  moreover have "\<forall>k. k \<noteq> (receiver, from) \<longrightarrow> delband s' k = delband s k"
    using w(4) by (simp add: d)
  ultimately show ?thesis by blast
qed

text \<open>
  Claim C9. \<open>undelegatebw from receiver\<close> looks the delegation row up at scope
  \<open>receiver\<close>, key \<open>from\<close>. Without that row it aborts. With it, the sum of the weights
  of that row is the amount from which the escrow scan starts, and so decides whether
  the request passes; when both quantities are positive, that row is also the one, and
  the only one, that is reduced (and erased when both weights reach zero).
  \<open>delegatebw\<close> writes the row of scope \<open>from\<close> (the receiver, with the transfer flag),
  key \<open>receiver\<close>, and no other.
\<close>

theorem undelegatebw_reads_reverse_row:
  "(delband s (receiver, from) = None \<longrightarrow>
      undelegatebw ctx s from receiver net cpu \<in>
        {Inl (AssertFailed ''must unstake a positive amount''),
         Inl (AssertFailed ''no such user to undelegate from'')})
   \<and> (\<forall>row. delband s (receiver, from) = Some row \<and> 0 \<le> cpu \<and> 0 \<le> net \<and> 0 < cpu + net \<longrightarrow>
        undelegatebw ctx s from receiver net cpu =
          (case escrow_scan from (uint (now ctx)) (net + cpu)
                  (db_net_weight row + db_cpu_weight row)
                  (snd (lower_bound_1 (escrow s receiver))) of
             Inl e \<Rightarrow> Inl e
           | Inr (a, rows') \<Rightarrow>
               if a < net + cpu
                 then Inl (AssertFailed ''cant unstake this amount for account at the moment'')
               else if total_activated_stake s < min_activated_stake ctx
                 then Inl (AssertFailed
                   ''cannot undelegate bandwidth until the chain is activated (at least 10% of all tokens participate in voting)'')
               else changebw ctx
                      (s\<lparr>escrow := (escrow s)
                           (receiver := fst (lower_bound_1 (escrow s receiver)) @ rows')\<rparr>)
                      from receiver (- net) (- cpu) False))
   \<and> (\<forall>row. delband s (receiver, from) = Some row
          \<and> owned_buckets from (snd (lower_bound_1 (escrow s receiver))) = []
          \<and> 0 \<le> cpu \<and> 0 \<le> net \<and> 0 < cpu + net
          \<and> db_net_weight row + db_cpu_weight row < net + cpu \<longrightarrow>
        undelegatebw ctx s from receiver net cpu =
          Inl (AssertFailed ''cant unstake this amount for account at the moment''))
   \<and> (\<forall>row u. delband s (receiver, from) = Some row \<and> 0 < net \<and> 0 < cpu
          \<and> undelegatebw ctx s from receiver net cpu = Inr u \<longrightarrow>
        delband u (receiver, from) =
          (if db_net_weight row - net = 0 \<and> db_cpu_weight row - cpu = 0 then None
           else Some (row\<lparr>db_net_weight := db_net_weight row - net,
                           db_cpu_weight := db_cpu_weight row - cpu\<rparr>))
        \<and> net \<le> db_net_weight row \<and> cpu \<le> db_cpu_weight row
        \<and> (\<forall>k. k \<noteq> (receiver, from) \<longrightarrow> delband u k = delband s k))
   \<and> (delegatebw ctx s from receiver net cpu transfer = Inr s' \<longrightarrow>
        (\<forall>k. k \<noteq> (if transfer then receiver else from, receiver) \<longrightarrow> delband s' k = delband s k)
        \<and> (delband s (if transfer then receiver else from, receiver) = None \<longrightarrow>
             delband s' (if transfer then receiver else from, receiver) =
               Some \<lparr>db_from = (if transfer then receiver else from), db_to = receiver,
                     db_net_weight = net, db_cpu_weight = cpu\<rparr>))"
proof (intro conjI)
  show "delband s (receiver, from) = None \<longrightarrow>
      undelegatebw ctx s from receiver net cpu \<in>
        {Inl (AssertFailed ''must unstake a positive amount''),
         Inl (AssertFailed ''no such user to undelegate from'')}"
    by (simp add: undelegatebw_def)
  show "\<forall>row. delband s (receiver, from) = Some row \<and> 0 \<le> cpu \<and> 0 \<le> net \<and> 0 < cpu + net \<longrightarrow>
        undelegatebw ctx s from receiver net cpu =
          (case escrow_scan from (uint (now ctx)) (net + cpu)
                  (db_net_weight row + db_cpu_weight row)
                  (snd (lower_bound_1 (escrow s receiver))) of
             Inl e \<Rightarrow> Inl e
           | Inr (a, rows') \<Rightarrow>
               if a < net + cpu
                 then Inl (AssertFailed ''cant unstake this amount for account at the moment'')
               else if total_activated_stake s < min_activated_stake ctx
                 then Inl (AssertFailed
                   ''cannot undelegate bandwidth until the chain is activated (at least 10% of all tokens participate in voting)'')
               else changebw ctx
                      (s\<lparr>escrow := (escrow s)
                           (receiver := fst (lower_bound_1 (escrow s receiver)) @ rows')\<rparr>)
                      from receiver (- net) (- cpu) False)"
    by (intro allI impI, elim conjE) (rule undelegatebw_with_row)
  show "\<forall>row. delband s (receiver, from) = Some row
          \<and> owned_buckets from (snd (lower_bound_1 (escrow s receiver))) = []
          \<and> 0 \<le> cpu \<and> 0 \<le> net \<and> 0 < cpu + net
          \<and> db_net_weight row + db_cpu_weight row < net + cpu \<longrightarrow>
        undelegatebw ctx s from receiver net cpu =
          Inl (AssertFailed ''cant unstake this amount for account at the moment'')"
  proof (intro allI impI, elim conjE)
    fix row
    assume row: "delband s (receiver, from) = Some row"
      and no: "owned_buckets from (snd (lower_bound_1 (escrow s receiver))) = []"
      and pos: "0 \<le> cpu" "0 \<le> net" "0 < cpu + net"
      and less: "db_net_weight row + db_cpu_weight row < net + cpu"
    show "undelegatebw ctx s from receiver net cpu =
          Inl (AssertFailed ''cant unstake this amount for account at the moment'')"
      using less
      by (simp add: undelegatebw_with_row [OF row pos] escrow_scan_not_owned [OF no])
  qed
  show "\<forall>row u. delband s (receiver, from) = Some row \<and> 0 < net \<and> 0 < cpu
          \<and> undelegatebw ctx s from receiver net cpu = Inr u \<longrightarrow>
        delband u (receiver, from) =
          (if db_net_weight row - net = 0 \<and> db_cpu_weight row - cpu = 0 then None
           else Some (row\<lparr>db_net_weight := db_net_weight row - net,
                           db_cpu_weight := db_cpu_weight row - cpu\<rparr>))
        \<and> net \<le> db_net_weight row \<and> cpu \<le> db_cpu_weight row
        \<and> (\<forall>k. k \<noteq> (receiver, from) \<longrightarrow> delband u k = delband s k)"
    by (intro allI impI, elim conjE) (rule undelegatebw_changes_reverse_row)
  show "delegatebw ctx s from receiver net cpu transfer = Inr s' \<longrightarrow>
        (\<forall>k. k \<noteq> (if transfer then receiver else from, receiver) \<longrightarrow> delband s' k = delband s k)
        \<and> (delband s (if transfer then receiver else from, receiver) = None \<longrightarrow>
             delband s' (if transfer then receiver else from, receiver) =
               Some \<lparr>db_from = (if transfer then receiver else from), db_to = receiver,
                     db_net_weight = net, db_cpu_weight = cpu\<rparr>)"
    by (intro impI) (rule delegatebw_writes_row)
qed

text \<open>
  Claim C6. With the owner's authority, \<open>refund\<close> aborts exactly when the owner has no
  refund row or \<open>request_time + refund_delay > now\<close> (32-bit unsigned arithmetic, as in
  the source), where the delay is 259200 seconds; on success it transfers
  \<open>net_amount + cpu_amount\<close> from \<open>snax.stake\<close> to the owner and erases the row.
\<close>

theorem refund_after_delay:
  assumes auth: "owner \<in> auths ctx"
    and keyed: "\<And>r. refunds s (owner, owner) = Some r \<Longrightarrow> rr_owner r = owner"
  shows "(isl (refund ctx s owner) \<longleftrightarrow>
            (refunds s (owner, owner) = None
             \<or> (\<exists>r. refunds s (owner, owner) = Some r
                    \<and> now ctx < rr_request_time r + refund_delay)))
    \<and> unat refund_delay = 259200
    \<and> (\<forall>s'. refund ctx s owner = Inr s' \<longrightarrow>
          (\<exists>r. refunds s (owner, owner) = Some r
             \<and> effects s' = effects s @
                 [Transfer ''snax.stake'' owner (rr_net_amount r + rr_cpu_amount r) ''unstake''])
          \<and> refunds s' (owner, owner) = None
          \<and> (\<forall>k. k \<noteq> (owner, owner) \<longrightarrow> refunds s' k = refunds s k))"
proof (intro conjI allI impI)
  show "isl (refund ctx s owner) \<longleftrightarrow>
            (refunds s (owner, owner) = None
             \<or> (\<exists>r. refunds s (owner, owner) = Some r
                    \<and> now ctx < rr_request_time r + refund_delay))"
    using auth by (cases "refunds s (owner, owner)") (auto simp add: refund_def not_le)
  show "unat refund_delay = 259200" by (simp add: refund_delay_def)
next
  fix s'
  assume ok: "refund ctx s owner = Inr s'"
  then obtain r where r: "refunds s (owner, owner) = Some r"
    by (cases "refunds s (owner, owner)") (simp_all add: refund_def split: if_splits)
  with ok keyed [OF r] show "\<exists>r. refunds s (owner, owner) = Some r
             \<and> effects s' = effects s @
                 [Transfer ''snax.stake'' owner (rr_net_amount r + rr_cpu_amount r) ''unstake'']"
    by (auto simp add: refund_def split: if_splits)
  from ok r show "refunds s' (owner, owner) = None"
    by (auto simp add: refund_def split: if_splits)
  fix k :: "account_name \<times> account_name"
  assume "k \<noteq> (owner, owner)"
  with ok r show "refunds s' k = refunds s k"
    by (auto simp add: refund_def split: if_splits)
qed

subsection \<open>Example runs\<close>

lemmas changebw_defs = changebw_def changebw_delband_def changebw_totals_def
  changebw_refund_def refund_bookkeeping_def update_refund_def create_refund_def
  changebw_voters_def Let_def

lemma genesis_to_self_staked:
  "delegatebw (signed_by ''alice'' 1000) genesis ''alice'' ''alice'' 100 100 False
     = Inr self_staked"
  by (simp add: delegatebw_def changebw_defs signed_by_def genesis_def self_staked_def)

lemma self_staked_to_refund_pending:
  "undelegatebw (signed_by ''alice'' 2000) self_staked ''alice'' ''alice'' 50 50
     = Inr refund_pending"
  by (simp add: undelegatebw_def lower_bound_1_def changebw_defs signed_by_def genesis_def
      self_staked_def refund_pending_def fun_upd_idem)

subsection \<open>The refund rows\<close>

lemma update_refund_result:
  "update_refund t r n c =
     (r\<lparr>rr_request_time := (if n < 0 \<or> c < 0 then t else rr_request_time r),
        rr_net_amount := max 0 (rr_net_amount r - n),
        rr_cpu_amount := max 0 (rr_cpu_amount r - c)\<rparr>,
      max 0 (n - rr_net_amount r), max 0 (c - rr_cpu_amount r))"
  by (simp add: update_refund_def Let_def max_def)

lemma refund_bookkeeping_other_keys:
  assumes "refund_bookkeeping ctx s from receiver net cpu transfer = Inr (tbl, nb, cb, need)"
    and "k \<noteq> (from, from)"
  shows "tbl k = refunds s k"
  using assms
  by (auto simp add: refund_bookkeeping_def Let_def update_refund_result create_refund_def
      split: if_splits option.splits)

lemma refund_bookkeeping_row:
  assumes "refund_bookkeeping ctx s from receiver net cpu transfer = Inr (tbl, nb, cb, need)"
    and "tbl (from, from) = Some r'"
  shows "refunds s (from, from) = Some r' \<or>
     (0 \<le> rr_net_amount r' \<and> 0 \<le> rr_cpu_amount r'
      \<and> \<not> (rr_net_amount r' = 0 \<and> rr_cpu_amount r' = 0))"
  using assms
  by (auto simp add: refund_bookkeeping_def Let_def update_refund_result create_refund_def
      split: if_splits option.splits)

lemma refunds_okD:
  "refunds_ok s \<Longrightarrow> refunds s k = Some r \<Longrightarrow>
     0 \<le> rr_net_amount r \<and> 0 \<le> rr_cpu_amount r
     \<and> \<not> (rr_net_amount r = 0 \<and> rr_cpu_amount r = 0)"
  unfolding refunds_ok_def by blast

lemma changebw_refund_refunds_ok:
  assumes inv: "refunds_ok s"
    and ok: "changebw_refund ctx s source from receiver net cpu transfer = Inr s'"
  shows "refunds_ok s'"
proof (cases "''snax.stake'' = source")
  case True
  with ok inv show ?thesis by (simp add: changebw_refund_def)
next
  case False
  with ok obtain tbl nb cb need where
    b: "refund_bookkeeping ctx s from receiver net cpu transfer = Inr (tbl, nb, cb, need)"
    and t: "refunds s' = tbl"
    by (auto simp add: changebw_refund_def Let_def split: sum.splits)
  show ?thesis
    unfolding refunds_ok_def
  proof (intro allI impI)
    fix k r
    assume "refunds s' k = Some r"
    with t have r: "tbl k = Some r" by simp
    show "0 \<le> rr_net_amount r \<and> 0 \<le> rr_cpu_amount r
        \<and> \<not> (rr_net_amount r = 0 \<and> rr_cpu_amount r = 0)"
    proof (cases "k = (from, from)")
      case True
      with refund_bookkeeping_row [OF b, of r] r refunds_okD [OF inv, of k r] show ?thesis
        by blast
    next
      case False
      then have "tbl k = refunds s k" by (rule refund_bookkeeping_other_keys [OF b])
      with r have "refunds s k = Some r" by simp
      with inv show ?thesis by (rule refunds_okD)
    qed
  qed
qed

lemma changebw_refunds_ok:
  assumes inv: "refunds_ok s"
    and ok: "changebw ctx s from receiver net cpu transfer = Inr s'"
  shows "refunds_ok s'"
proof -
  from ok obtain s1 s2 s3 where
    1: "changebw_delband s (net < 0 \<and> cpu < 0) (if transfer then receiver else from) receiver net cpu
       = Inr s1"
    and 2: "changebw_totals s1 (net < 0 \<and> cpu < 0) (if transfer then receiver else from) receiver net cpu
       = Inr s2"
    and 3: "changebw_refund ctx s2 from (if transfer then receiver else from) receiver net cpu transfer
       = Inr s3"
    and 4: "changebw_voters ctx s3 (net < 0 \<and> cpu < 0) (if transfer then receiver else from) receiver
       net cpu = Inr s'"
    by (rule changebw_steps)
  from inv have "refunds_ok s2"
    by (simp add: refunds_ok_def changebw_delband_frame(2) [OF 1] changebw_totals_frame(2) [OF 2])
  then have "refunds_ok s3" using 3 by (rule changebw_refund_refunds_ok)
  then show ?thesis
    by (simp add: refunds_ok_def changebw_voters_frame(3) [OF 4])
qed

lemma refund_refunds_ok:
  assumes "refunds_ok s" and "refund ctx s owner = Inr s'"
  shows "refunds_ok s'"
  using assms
  by (auto simp add: refund_def refunds_ok_def split: if_splits option.splits)

lemma buyram_refunds: "buyram conv ctx s payer receiver quant = Inr s' \<Longrightarrow> refunds s' = refunds s"
  by (auto simp add: buyram_def Let_def split: if_splits option.splits prod.splits)

lemma sellram_refunds: "sellram conv ctx s account bytes = Inr s' \<Longrightarrow> refunds s' = refunds s"
  by (auto simp add: sellram_def Let_def split: if_splits option.splits prod.splits)

lemma reachable_refunds_ok: "reachable s \<Longrightarrow> refunds_ok s"
proof (induction rule: reachable.induct)
  case (r_initial s)
  then show ?case by (simp add: initial_def refunds_ok_def)
next
  case (r_buyram s conv ctx payer receiver quant s')
  then show ?case by (simp add: refunds_ok_def buyram_refunds)
next
  case (r_sellram s conv ctx account bytes s')
  then show ?case by (simp add: refunds_ok_def sellram_refunds)
next
  case (r_changebw s ctx "from" receiver net cpu transfer s')
  then show ?case by (blast intro: changebw_refunds_ok)
next
  case (r_delegatebw s ctx "from" receiver net cpu transfer s')
  then show ?case by (blast intro: changebw_refunds_ok delegatebw_changebw)
next
  case (r_escrowbw s pk ctx "from" receiver net cpu transfer period_count s')
  from r_escrowbw.hyps(2) obtain s1 where
    d: "delegatebw ctx s from receiver net cpu transfer = Inr s1" and e: "refunds s' = refunds s1"
    by (rule escrowbw_delegatebw)
  from r_escrowbw.IH d have "refunds_ok s1"
    by (blast intro: changebw_refunds_ok delegatebw_changebw)
  with e show ?case by (simp add: refunds_ok_def)
next
  case (r_undelegatebw s ctx "from" receiver net cpu s')
  from r_undelegatebw.hyps(2) obtain rows where
    c: "changebw ctx (s\<lparr>escrow := (escrow s)(receiver := rows)\<rparr>) from receiver (- net) (- cpu) False
       = Inr s'"
    by (rule undelegatebw_changebw)
  from r_undelegatebw.IH have "refunds_ok (s\<lparr>escrow := (escrow s)(receiver := rows)\<rparr>)"
    by (simp add: refunds_ok_def)
  then show ?case using c by (rule changebw_refunds_ok)
next
  case (r_refund s ctx owner s')
  then show ?case by (blast intro: refund_refunds_ok)
qed

lemma changebw_refund_outcome:
  assumes ok: "changebw_refund ctx s source from receiver net cpu transfer = Inr s'"
  shows "refunds s' (from, from) =
      (if source = ''snax.stake'' \<or> \<not> ((\<not> transfer \<and> from = receiver) \<or> net + cpu < 0)
       then refunds s (from, from)
       else case refunds s (from, from) of
         Some r \<Rightarrow>
           if max 0 (rr_net_amount r - net) = 0 \<and> max 0 (rr_cpu_amount r - cpu) = 0 then None
           else Some (r\<lparr>rr_request_time :=
                            (if net < 0 \<or> cpu < 0 then now ctx else rr_request_time r),
                         rr_net_amount := max 0 (rr_net_amount r - net),
                         rr_cpu_amount := max 0 (rr_cpu_amount r - cpu)\<rparr>)
       | None \<Rightarrow>
           if net < 0 \<or> cpu < 0
           then Some \<lparr>rr_owner = from, rr_request_time = now ctx,
                       rr_net_amount = max 0 (- net), rr_cpu_amount = max 0 (- cpu)\<rparr>
           else None)"
    and "deferred s' from =
      (if source = ''snax.stake'' then deferred s from
       else if ((\<not> transfer \<and> from = receiver) \<or> net + cpu < 0)
               \<and> refunds s' (from, from) \<noteq> None
         then Some refund_delay else None)"
    and "k \<noteq> (from, from) \<Longrightarrow> refunds s' k = refunds s k"
    and "a \<noteq> from \<Longrightarrow> deferred s' a = deferred s a"
proof -
  show "k \<noteq> (from, from) \<Longrightarrow> refunds s' k = refunds s k"
    using ok refund_bookkeeping_other_keys [of ctx s "from" receiver net cpu transfer _ _ _ _ k]
    by (auto simp add: changebw_refund_def Let_def split: if_splits sum.splits)
  show "a \<noteq> from \<Longrightarrow> deferred s' a = deferred s a"
    using ok by (auto simp add: changebw_refund_def Let_def split: if_splits sum.splits)
  show "refunds s' (from, from) =
      (if source = ''snax.stake'' \<or> \<not> ((\<not> transfer \<and> from = receiver) \<or> net + cpu < 0)
       then refunds s (from, from)
       else case refunds s (from, from) of
         Some r \<Rightarrow>
           if max 0 (rr_net_amount r - net) = 0 \<and> max 0 (rr_cpu_amount r - cpu) = 0 then None
           else Some (r\<lparr>rr_request_time :=
                            (if net < 0 \<or> cpu < 0 then now ctx else rr_request_time r),
                         rr_net_amount := max 0 (rr_net_amount r - net),
                         rr_cpu_amount := max 0 (rr_cpu_amount r - cpu)\<rparr>)
       | None \<Rightarrow>
           if net < 0 \<or> cpu < 0
           then Some \<lparr>rr_owner = from, rr_request_time = now ctx,
                       rr_net_amount = max 0 (- net), rr_cpu_amount = max 0 (- cpu)\<rparr>
           else None)"
    using ok
    by (cases "refunds s (from, from)")
      (auto simp add: changebw_refund_def refund_bookkeeping_def Let_def update_refund_result
        create_refund_def split: if_splits)
  show "deferred s' from =
      (if source = ''snax.stake'' then deferred s from
       else if ((\<not> transfer \<and> from = receiver) \<or> net + cpu < 0)
               \<and> refunds s' (from, from) \<noteq> None
         then Some refund_delay else None)"
    using ok
    by (cases "refunds s (from, from)")
      (auto simp add: changebw_refund_def refund_bookkeeping_def Let_def update_refund_result
        create_refund_def split: if_splits)
qed

lemma reachable_refund_pending: "reachable refund_pending"
proof -
  have "initial genesis" by (simp add: initial_def genesis_def)
  then have "reachable genesis" by (rule r_initial)
  then have "reachable self_staked" using genesis_to_self_staked by (rule r_delegatebw)
  then show ?thesis using self_staked_to_refund_pending by (rule r_undelegatebw)
qed

lemma refund_pending_to_refund_row_kept:
  "changebw (signed_by ''alice'' 3000) refund_pending ''alice'' ''bob'' 10 10 False
     = Inr refund_row_kept"
  by (simp add: changebw_defs signed_by_def genesis_def refund_pending_def refund_row_kept_def)

text \<open>
  Claim C3, as stated, fails for the deferred payout: a \<open>changebw\<close> that does not enter
  the refund branch cancels it although the amounts of the refund row have not reached
  zero and the row stays. \<open>alice\<close> has a refund of 50 and 50 pending, with its payout
  scheduled, and stakes on \<open>bob\<close>.
\<close>

theorem changebw_cancels_payout_of_kept_refund:
  "reachable refund_pending
   \<and> changebw (signed_by ''alice'' 3000) refund_pending ''alice'' ''bob'' 10 10 False
       = Inr refund_row_kept
   \<and> refunds refund_pending (''alice'', ''alice'') =
       Some \<lparr>rr_owner = ''alice'', rr_request_time = 2000, rr_net_amount = 50,
              rr_cpu_amount = 50\<rparr>
   \<and> refunds refund_row_kept (''alice'', ''alice'') =
       Some \<lparr>rr_owner = ''alice'', rr_request_time = 2000, rr_net_amount = 50,
              rr_cpu_amount = 50\<rparr>
   \<and> deferred refund_pending ''alice'' = Some refund_delay
   \<and> deferred refund_row_kept ''alice'' = None"
  using reachable_refund_pending refund_pending_to_refund_row_kept
  by (simp add: refund_pending_def refund_row_kept_def genesis_def)

text \<open>
  Claim C3, amended. In every reachable ledger the amounts of every refund row are
  non-negative and not both zero. A successful \<open>changebw\<close> touches the refund row and the
  deferred payout of the local \<open>from\<close> only. Outside the refund branch (the source is
  \<open>snax.stake\<close>, or the call neither undelegates nor delegates to self) the row is left as
  it is. In the branch an existing row is erased exactly when both amounts reach zero;
  otherwise it keeps the new amounts, and its \<open>request_time\<close> becomes \<open>now\<close> if a delta
  is negative and is unchanged if not; without a row, one is created if a delta is
  negative. The deferred payout is scheduled again when the branch leaves a row, and is
  cancelled in every other case where the source is not \<open>snax.stake\<close>, also when the row
  was not touched.
\<close>

theorem refund_row_lifecycle:
  assumes "reachable s"
  shows "(\<forall>k r. refunds s k = Some r \<longrightarrow>
            0 \<le> rr_net_amount r \<and> 0 \<le> rr_cpu_amount r
            \<and> \<not> (rr_net_amount r = 0 \<and> rr_cpu_amount r = 0))
    \<and> (\<forall>ctx from receiver net cpu transfer s' f.
          changebw ctx s from receiver net cpu transfer = Inr s'
          \<and> f = (if transfer then receiver else from) \<longrightarrow>
            (\<forall>k. k \<noteq> (f, f) \<longrightarrow> refunds s' k = refunds s k)
            \<and> (\<forall>a. a \<noteq> f \<longrightarrow> deferred s' a = deferred s a)
            \<and> refunds s' (f, f) =
                (if from = ''snax.stake''
                    \<or> \<not> ((\<not> transfer \<and> f = receiver) \<or> net + cpu < 0)
                 then refunds s (f, f)
                 else case refunds s (f, f) of
                   Some r \<Rightarrow>
                     if max 0 (rr_net_amount r - net) = 0 \<and> max 0 (rr_cpu_amount r - cpu) = 0
                     then None
                     else Some (r\<lparr>rr_request_time :=
                                      (if net < 0 \<or> cpu < 0 then now ctx else rr_request_time r),
                                   rr_net_amount := max 0 (rr_net_amount r - net),
                                   rr_cpu_amount := max 0 (rr_cpu_amount r - cpu)\<rparr>)
                 | None \<Rightarrow>
                     if net < 0 \<or> cpu < 0
                     then Some \<lparr>rr_owner = f, rr_request_time = now ctx,
                                 rr_net_amount = max 0 (- net), rr_cpu_amount = max 0 (- cpu)\<rparr>
                     else None)
            \<and> deferred s' f =
                (if from = ''snax.stake'' then deferred s f
                 else if ((\<not> transfer \<and> f = receiver) \<or> net + cpu < 0)
                         \<and> refunds s' (f, f) \<noteq> None
                   then Some refund_delay else None))"
proof (intro conjI allI impI)
  fix k r
  assume "refunds s k = Some r"
  with reachable_refunds_ok [OF assms]
  have "0 \<le> rr_net_amount r \<and> 0 \<le> rr_cpu_amount r
            \<and> \<not> (rr_net_amount r = 0 \<and> rr_cpu_amount r = 0)"
    by (rule refunds_okD)
  then show "0 \<le> rr_net_amount r" "0 \<le> rr_cpu_amount r"
    "\<not> (rr_net_amount r = 0 \<and> rr_cpu_amount r = 0)"
    by simp_all
next
  fix ctx "from" receiver net cpu transfer s' f
  assume h: "changebw ctx s from receiver net cpu transfer = Inr s'
          \<and> f = (if transfer then receiver else from)"
  then have ok: "changebw ctx s from receiver net cpu transfer = Inr s'"
    and f: "(if transfer then receiver else from) = f"
    by blast+
  from ok obtain s1 s2 s3 where
    1: "changebw_delband s (net < 0 \<and> cpu < 0) f receiver net cpu = Inr s1"
    and 2: "changebw_totals s1 (net < 0 \<and> cpu < 0) f receiver net cpu = Inr s2"
    and r3: "changebw_refund ctx s2 from f receiver net cpu transfer = Inr s3"
    and 4: "changebw_voters ctx s3 (net < 0 \<and> cpu < 0) f receiver net cpu = Inr s'"
    unfolding f [symmetric] by (rule changebw_steps)
  have b: "refunds s2 = refunds s" "deferred s2 = deferred s"
    by (simp_all add: changebw_delband_frame [OF 1] changebw_totals_frame [OF 2])
  have e: "refunds s3 = refunds s'" "deferred s3 = deferred s'"
    by (simp_all add: changebw_voters_frame [OF 4])
  note o = changebw_refund_outcome [OF r3, unfolded b e]
  show "refunds s' (f, f) =
                (if from = ''snax.stake''
                    \<or> \<not> ((\<not> transfer \<and> f = receiver) \<or> net + cpu < 0)
                 then refunds s (f, f)
                 else case refunds s (f, f) of
                   Some r \<Rightarrow>
                     if max 0 (rr_net_amount r - net) = 0 \<and> max 0 (rr_cpu_amount r - cpu) = 0
                     then None
                     else Some (r\<lparr>rr_request_time :=
                                      (if net < 0 \<or> cpu < 0 then now ctx else rr_request_time r),
                                   rr_net_amount := max 0 (rr_net_amount r - net),
                                   rr_cpu_amount := max 0 (rr_cpu_amount r - cpu)\<rparr>)
                 | None \<Rightarrow>
                     if net < 0 \<or> cpu < 0
                     then Some \<lparr>rr_owner = f, rr_request_time = now ctx,
                                 rr_net_amount = max 0 (- net), rr_cpu_amount = max 0 (- cpu)\<rparr>
                     else None)"
    by (rule o(1))
  show "deferred s' f =
                (if from = ''snax.stake'' then deferred s f
                 else if ((\<not> transfer \<and> f = receiver) \<or> net + cpu < 0)
                         \<and> refunds s' (f, f) \<noteq> None
                   then Some refund_delay else None)"
    by (rule o(2))
  show "refunds s' k = refunds s k" if "k \<noteq> (f, f)" for k
    using that by (rule o(3))
  show "deferred s' a = deferred s a" if "a \<noteq> f" for a
    using that by (rule o(4))
qed

theorem refund_row_lifecycle_witness:
  "reachable refund_pending
   \<and> (\<exists>s'. changebw (signed_by ''alice'' 3000) refund_pending ''alice'' ''alice'' 50 50 False
              = Inr s'
           \<and> refunds s' (''alice'', ''alice'') = None \<and> deferred s' ''alice'' = None)
   \<and> (\<exists>s'. changebw (signed_by ''alice'' 3000) refund_pending ''alice'' ''alice'' (- 10) (- 10)
              False = Inr s'
           \<and> refunds s' (''alice'', ''alice'') =
               Some \<lparr>rr_owner = ''alice'', rr_request_time = 3000, rr_net_amount = 60,
                      rr_cpu_amount = 60\<rparr>
           \<and> deferred s' ''alice'' = Some refund_delay)
   \<and> refunds refund_row_kept (''alice'', ''alice'') = refunds refund_pending (''alice'', ''alice'')
   \<and> deferred refund_row_kept ''alice'' = None"
proof -
  note l = refund_row_lifecycle [OF reachable_refund_pending, THEN conjunct2, rule_format]
  have row: "refunds refund_pending (''alice'', ''alice'') =
    Some \<lparr>rr_owner = ''alice'', rr_request_time = 2000, rr_net_amount = 50, rr_cpu_amount = 50\<rparr>"
    by (simp add: refund_pending_def genesis_def)
  have "\<exists>s'. changebw (signed_by ''alice'' 3000) refund_pending ''alice'' ''alice'' 50 50 False
              = Inr s'"
    by (simp add: changebw_defs signed_by_def genesis_def refund_pending_def)
  then obtain s1 where
    1: "changebw (signed_by ''alice'' 3000) refund_pending ''alice'' ''alice'' 50 50 False = Inr s1"
    by blast
  have a: "refunds s1 (''alice'', ''alice'') = None \<and> deferred s1 ''alice'' = None"
    using l [of "signed_by ''alice'' 3000" "''alice''" "''alice''" 50 50 False s1 "''alice''"] 1 row
    by simp
  have "\<exists>s'. changebw (signed_by ''alice'' 3000) refund_pending ''alice'' ''alice'' (- 10) (- 10)
              False = Inr s'"
    by (simp add: changebw_defs signed_by_def genesis_def refund_pending_def)
  then obtain s2 where
    2: "changebw (signed_by ''alice'' 3000) refund_pending ''alice'' ''alice'' (- 10) (- 10) False
          = Inr s2"
    by blast
  have b: "refunds s2 (''alice'', ''alice'') =
               Some \<lparr>rr_owner = ''alice'', rr_request_time = 3000, rr_net_amount = 60,
                      rr_cpu_amount = 60\<rparr>
           \<and> deferred s2 ''alice'' = Some refund_delay"
    using l [of "signed_by ''alice'' 3000" "''alice''" "''alice''" "- 10" "- 10" False s2 "''alice''"]
      2 row
    by (simp add: signed_by_def)
  have c: "refunds refund_row_kept (''alice'', ''alice'')
             = refunds refund_pending (''alice'', ''alice'')
           \<and> deferred refund_row_kept ''alice'' = None"
    using l [of "signed_by ''alice'' 3000" "''alice''" "''bob''" 10 10 False refund_row_kept
        "''alice''"] refund_pending_to_refund_row_kept
    by simp
  from reachable_refund_pending 1 a 2 b c show ?thesis by blast
qed

theorem refund_after_delay_witness:
  "isl (refund (signed_by ''alice'' 3000) refund_pending ''alice'')
   \<and> (\<exists>s'. refund (signed_by ''alice'' 261200) refund_pending ''alice'' = Inr s'
         \<and> effects s' = effects refund_pending @
              [Transfer ''snax.stake'' ''alice'' 100 ''unstake'']
         \<and> refunds s' (''alice'', ''alice'') = None)"
proof -
  have row: "refunds refund_pending (''alice'', ''alice'') =
    Some \<lparr>rr_owner = ''alice'', rr_request_time = 2000, rr_net_amount = 50, rr_cpu_amount = 50\<rparr>"
    by (simp add: refund_pending_def genesis_def)
  have early: "isl (refund (signed_by ''alice'' 3000) refund_pending ''alice'')"
    using refund_after_delay [of "''alice''" "signed_by ''alice'' 3000" refund_pending]
    by (simp add: row signed_by_def refund_delay_def)
  have "\<not> isl (refund (signed_by ''alice'' 261200) refund_pending ''alice'')"
    using refund_after_delay [of "''alice''" "signed_by ''alice'' 261200" refund_pending]
    by (simp add: row signed_by_def refund_delay_def)
  then obtain s' where ok: "refund (signed_by ''alice'' 261200) refund_pending ''alice'' = Inr s'"
    by (cases "refund (signed_by ''alice'' 261200) refund_pending ''alice''") simp_all
  have "effects s' = effects refund_pending @ [Transfer ''snax.stake'' ''alice'' 100 ''unstake'']
      \<and> refunds s' (''alice'', ''alice'') = None"
    using refund_after_delay [of "''alice''" "signed_by ''alice'' 261200" refund_pending] ok
    by (simp add: row signed_by_def)
  with early ok show ?thesis by blast
qed

lemma genesis_to_alice_to_bob:
  "delegatebw (signed_by ''alice'' 1000) genesis ''alice'' ''bob'' 5 3 False = Inr alice_to_bob"
  by (simp add: delegatebw_def changebw_defs signed_by_def genesis_def alice_to_bob_def)

theorem undelegatebw_reads_reverse_row_witness:
  "delegatebw (signed_by ''alice'' 1000) genesis ''alice'' ''bob'' 5 3 False = Inr alice_to_bob
   \<and> delband alice_to_bob (''alice'', ''bob'') =
        Some \<lparr>db_from = ''alice'', db_to = ''bob'', db_net_weight = 5, db_cpu_weight = 3\<rparr>
   \<and> delband alice_to_bob (''bob'', ''alice'') = None
   \<and> undelegatebw (signed_by ''alice'' 2000) alice_to_bob ''alice'' ''bob'' 5 3
        = Inl (AssertFailed ''no such user to undelegate from'')
   \<and> undelegatebw (signed_by ''alice'' 2000) alice_to_bob ''bob'' ''alice'' 5 4
        = Inl (AssertFailed ''cant unstake this amount for account at the moment'')
   \<and> (\<exists>u. undelegatebw (signed_by ''alice'' 2000) alice_to_bob ''bob'' ''alice'' 5 3 = Inr u
          \<and> delband u (''alice'', ''bob'') = None)"
proof -
  have e: "delband genesis = Map.empty" by (simp add: genesis_def)
  have row: "delband alice_to_bob (''alice'', ''bob'') =
        Some \<lparr>db_from = ''alice'', db_to = ''bob'', db_net_weight = 5, db_cpu_weight = 3\<rparr>"
    by (simp add: alice_to_bob_def genesis_def)
  have none: "delband alice_to_bob (''bob'', ''alice'') = None"
    using undelegatebw_reads_reverse_row
      [of genesis "''bob''" "''alice''" "signed_by ''alice'' 1000" 5 3 False alice_to_bob]
      genesis_to_alice_to_bob
    by (simp add: e)
  have no: "owned_buckets ''bob'' (snd (lower_bound_1 (escrow alice_to_bob ''alice''))) = []"
    by (simp add: owned_buckets_def lower_bound_1_def alice_to_bob_def genesis_def)
  have a: "undelegatebw (signed_by ''alice'' 2000) alice_to_bob ''alice'' ''bob'' 5 3
        = Inl (AssertFailed ''no such user to undelegate from'')"
    using undelegatebw_reads_reverse_row
      [of alice_to_bob "''bob''" "''alice''" "signed_by ''alice'' 2000" 5 3] none
    by (simp add: undelegatebw_def)
  have b: "undelegatebw (signed_by ''alice'' 2000) alice_to_bob ''bob'' ''alice'' 5 4
        = Inl (AssertFailed ''cant unstake this amount for account at the moment'')"
    using undelegatebw_reads_reverse_row
      [of alice_to_bob "''alice''" "''bob''" "signed_by ''alice'' 2000" 5 4,
       THEN conjunct2, THEN conjunct2, THEN conjunct1, rule_format]
      row no
    by simp
  have "\<exists>u. undelegatebw (signed_by ''alice'' 2000) alice_to_bob ''bob'' ''alice'' 5 3 = Inr u"
    by (simp add: undelegatebw_def lower_bound_1_def changebw_defs signed_by_def genesis_def
        alice_to_bob_def)
  then obtain u where
    ok: "undelegatebw (signed_by ''alice'' 2000) alice_to_bob ''bob'' ''alice'' 5 3 = Inr u"
    by blast
  have c: "delband u (''alice'', ''bob'') = None"
    using undelegatebw_reads_reverse_row
      [of alice_to_bob "''alice''" "''bob''" "signed_by ''alice'' 2000" 5 3,
       THEN conjunct2, THEN conjunct2, THEN conjunct2, THEN conjunct1, rule_format,
       of _ u]
      row ok
    by simp
  from genesis_to_alice_to_bob row none a b ok c show ?thesis by blast
qed

subsection \<open>The delegation rows and the totals rows\<close>

lemma changebw_delband_row:
  assumes "changebw_delband s swap from receiver net cpu = Inr s'"
    and "delband s' k = Some r"
  shows "delband s k = Some r \<or>
     (0 \<le> db_net_weight r \<and> 0 \<le> db_cpu_weight r
      \<and> \<not> (db_net_weight r = 0 \<and> db_cpu_weight r = 0))"
  using assms
  by (auto simp add: changebw_delband_def Let_def split: if_splits option.splits)

lemma changebw_totals_row:
  assumes "changebw_totals s swap from receiver net cpu = Inr s'"
    and "userres s' k = Some r"
  shows "userres s k = Some r \<or>
     (0 \<le> ur_net_weight r \<and> 0 \<le> ur_cpu_weight r
      \<and> \<not> (ur_net_weight r = 0 \<and> ur_cpu_weight r = 0 \<and> ur_ram_bytes r = 0))"
  using assms
  by (auto simp add: changebw_totals_def Let_def split: if_splits option.splits)

lemma delband_okD:
  "delband_ok s \<Longrightarrow> delband s k = Some r \<Longrightarrow>
     0 \<le> db_net_weight r \<and> 0 \<le> db_cpu_weight r
     \<and> \<not> (db_net_weight r = 0 \<and> db_cpu_weight r = 0)"
  unfolding delband_ok_def by blast

lemma totals_okD:
  "totals_ok s \<Longrightarrow> userres s k = Some r \<Longrightarrow>
     0 \<le> ur_net_weight r \<and> 0 \<le> ur_cpu_weight r
     \<and> \<not> (ur_net_weight r = 0 \<and> ur_cpu_weight r = 0 \<and> ur_ram_bytes r = 0)"
  unfolding totals_ok_def by blast

lemma changebw_rows_ok:
  assumes inv: "delband_ok s" "totals_ok s"
    and ok: "changebw ctx s from receiver net cpu transfer = Inr s'"
  shows "delband_ok s'" "totals_ok s'"
proof -
  from ok obtain s1 s2 s3 where
    1: "changebw_delband s (net < 0 \<and> cpu < 0) (if transfer then receiver else from) receiver net cpu
       = Inr s1"
    and 2: "changebw_totals s1 (net < 0 \<and> cpu < 0) (if transfer then receiver else from) receiver net cpu
       = Inr s2"
    and 3: "changebw_refund ctx s2 from (if transfer then receiver else from) receiver net cpu transfer
       = Inr s3"
    and 4: "changebw_voters ctx s3 (net < 0 \<and> cpu < 0) (if transfer then receiver else from) receiver
       net cpu = Inr s'"
    by (rule changebw_steps)
  have d: "delband s' = delband s1"
    by (simp add: changebw_voters_frame(1) [OF 4] changebw_refund_frame(1) [OF 3]
        changebw_totals_frame(1) [OF 2])
  have u: "userres s' = userres s2" "userres s1 = userres s"
    by (simp_all add: changebw_voters_frame(2) [OF 4] changebw_refund_frame(2) [OF 3]
        changebw_delband_frame(1) [OF 1])
  show "delband_ok s'"
    unfolding delband_ok_def d
  proof (intro allI impI)
    fix k r
    assume "delband s1 k = Some r"
    from changebw_delband_row [OF 1 this] delband_okD [OF inv(1), of k r]
    show "0 \<le> db_net_weight r \<and> 0 \<le> db_cpu_weight r
        \<and> \<not> (db_net_weight r = 0 \<and> db_cpu_weight r = 0)"
      by blast
  qed
  show "totals_ok s'"
    unfolding totals_ok_def u(1)
  proof (intro allI impI)
    fix k r
    assume "userres s2 k = Some r"
    from changebw_totals_row [OF 2 this] totals_okD [OF inv(2), of k r]
    show "0 \<le> ur_net_weight r \<and> 0 \<le> ur_cpu_weight r
        \<and> \<not> (ur_net_weight r = 0 \<and> ur_cpu_weight r = 0 \<and> ur_ram_bytes r = 0)"
      unfolding u(2) by blast
  qed
qed

lemma refund_rows:
  "refund ctx s owner = Inr s' \<Longrightarrow> delband s' = delband s \<and> userres s' = userres s"
  by (auto simp add: refund_def split: if_splits option.splits)

lemma delegation_reachable_rows_ok:
  "delegation_reachable s \<Longrightarrow> delband_ok s \<and> totals_ok s"
proof (induction rule: delegation_reachable.induct)
  case (d_initial s)
  then show ?case by (simp add: initial_def delband_ok_def totals_ok_def)
next
  case (d_changebw s ctx "from" receiver net cpu transfer s')
  then show ?case by (blast intro: changebw_rows_ok)
next
  case (d_delegatebw s ctx "from" receiver net cpu transfer s')
  then show ?case by (blast intro: changebw_rows_ok delegatebw_changebw)
next
  case (d_escrowbw s pk ctx "from" receiver net cpu transfer period_count s')
  from d_escrowbw.hyps(2) obtain s1 where
    d: "delegatebw ctx s from receiver net cpu transfer = Inr s1"
    and e: "delband s' = delband s1" "userres s' = userres s1"
    by (rule escrowbw_delegatebw)
  from d_escrowbw.IH d have "delband_ok s1 \<and> totals_ok s1"
    by (blast intro: changebw_rows_ok delegatebw_changebw)
  with e show ?case by (simp add: delband_ok_def totals_ok_def)
next
  case (d_undelegatebw s ctx "from" receiver net cpu s')
  from d_undelegatebw.hyps(2) obtain rows where
    c: "changebw ctx (s\<lparr>escrow := (escrow s)(receiver := rows)\<rparr>) from receiver (- net) (- cpu) False
       = Inr s'"
    by (rule undelegatebw_changebw)
  from d_undelegatebw.IH have
    "delband_ok (s\<lparr>escrow := (escrow s)(receiver := rows)\<rparr>)"
    "totals_ok (s\<lparr>escrow := (escrow s)(receiver := rows)\<rparr>)"
    by (simp_all add: delband_ok_def totals_ok_def)
  then show ?case using c by (blast intro: changebw_rows_ok)
next
  case (d_refund s ctx owner s')
  then show ?case by (simp add: delband_ok_def totals_ok_def refund_rows)
qed

text \<open>
  Claim C7. After every successful \<open>changebw\<close> on a ledger reached by delegation
  operations, every delegation row and every totals row has non-negative weights, no
  delegation row has both weights zero, and no totals row has both weights and the RAM
  bytes zero.
\<close>

theorem changebw_leaves_no_zero_rows:
  assumes "delegation_reachable s"
    and "changebw ctx s from receiver net cpu transfer = Inr s'"
  shows "(\<forall>k r. delband s' k = Some r \<longrightarrow>
            0 \<le> db_net_weight r \<and> 0 \<le> db_cpu_weight r
            \<and> \<not> (db_net_weight r = 0 \<and> db_cpu_weight r = 0))
    \<and> (\<forall>k r. userres s' k = Some r \<longrightarrow>
            0 \<le> ur_net_weight r \<and> 0 \<le> ur_cpu_weight r
            \<and> \<not> (ur_net_weight r = 0 \<and> ur_cpu_weight r = 0 \<and> ur_ram_bytes r = 0))"
proof -
  from assms(1) have "delband_ok s" "totals_ok s"
    by (simp_all add: delegation_reachable_rows_ok)
  then have "delband_ok s'" "totals_ok s'"
    using assms(2) by (rule changebw_rows_ok)+
  then show ?thesis by (simp add: delband_ok_def totals_ok_def)
qed

lemma delegation_reachable_refund_pending: "delegation_reachable refund_pending"
proof -
  have "initial genesis" by (simp add: initial_def genesis_def)
  then have "delegation_reachable genesis" by (rule d_initial)
  then have "delegation_reachable self_staked" using genesis_to_self_staked by (rule d_delegatebw)
  then show ?thesis using self_staked_to_refund_pending by (rule d_undelegatebw)
qed

theorem changebw_leaves_no_zero_rows_witness:
  "delegation_reachable refund_pending
   \<and> (\<exists>s'. changebw (signed_by ''alice'' 3000) refund_pending ''alice'' ''alice'' (- 50) (- 50)
              False = Inr s'
         \<and> delband s' (''alice'', ''alice'') = None \<and> userres s' (''alice'', ''alice'') = None
         \<and> (\<forall>k r. delband s' k = Some r \<longrightarrow>
               \<not> (db_net_weight r = 0 \<and> db_cpu_weight r = 0)))"
proof -
  have "\<exists>s'. changebw (signed_by ''alice'' 3000) refund_pending ''alice'' ''alice'' (- 50) (- 50)
              False = Inr s'
         \<and> delband s' (''alice'', ''alice'') = None \<and> userres s' (''alice'', ''alice'') = None"
    by (simp add: changebw_defs signed_by_def genesis_def refund_pending_def)
  then obtain s' where
    ok: "changebw (signed_by ''alice'' 3000) refund_pending ''alice'' ''alice'' (- 50) (- 50)
              False = Inr s'"
    and e: "delband s' (''alice'', ''alice'') = None" "userres s' (''alice'', ''alice'') = None"
    by blast
  from changebw_leaves_no_zero_rows [OF delegation_reachable_refund_pending ok]
  have "\<forall>k r. delband s' k = Some r \<longrightarrow> \<not> (db_net_weight r = 0 \<and> db_cpu_weight r = 0)"
    by blast
  with delegation_reachable_refund_pending ok e show ?thesis by blast
qed

subsection \<open>The vesting of b1\<close>

lemma b1_claimable_base_time: "b1_claimable 1527811200 = 0"
  by (simp add: b1_claimable_def base_time_def to_double_def trunc_to_int_def)

lemma genesis_to_b1_staked:
  "delegatebw (signed_by ''b1'' 1527811200) genesis ''b1'' ''carol'' 500000000000 500000000000
     False = Inr b1_staked"
  by (simp add: delegatebw_def changebw_defs validate_b1_vesting_def b1_claimable_base_time
      max_claimable_def signed_by_def genesis_def b1_staked_def)

lemma changebw_b1_vesting_checked:
  assumes ok: "changebw ctx s from receiver net cpu transfer = Inr s'"
    and b1: "(if transfer then receiver else from) = ''b1''"
    and ns: "\<not> (net < 0 \<and> cpu < 0)"
  shows "\<exists>v. voters s' ''b1'' = Some v \<and> max_claimable - b1_claimable (now ctx) \<le> v_staked v"
proof -
  from ns have sw: "(net < 0 \<and> cpu < 0) = False" by simp
  from ok obtain s3 where
    "changebw_voters ctx s3 (net < 0 \<and> cpu < 0) (if transfer then receiver else from)
       receiver net cpu = Inr s'"
    by (rule changebw_steps)
  then have "changebw_voters ctx s3 False ''b1'' receiver net cpu = Inr s'"
    by (simp only: b1 sw)
  then show ?thesis
    by (auto simp add: changebw_voters_def Let_def validate_b1_vesting_def
        split: if_splits option.splits sum.splits)
qed

text \<open>
  Claim C8. The vesting check of \<open>b1\<close> is made when the local \<open>from\<close> is \<open>b1\<close>, while
  the voter row that \<open>changebw\<close> updates is the one of \<open>receiver\<close> when both deltas are
  negative. Here \<open>b1\<close> is the receiver: at the base time, when nothing is claimable,
  \<open>b1\<close> takes back the whole stake it delegated to \<open>carol\<close>, the staked balance of
  \<open>b1\<close> falls from \<open>max_claimable\<close> to 0, and the action succeeds.
\<close>

theorem changebw_swap_skips_b1_vesting:
  "reachable b1_staked
   \<and> (\<exists>s'. undelegatebw (signed_by ''b1'' 1527811200) b1_staked ''carol'' ''b1''
               500000000000 500000000000 = Inr s'
         \<and> changebw (signed_by ''b1'' 1527811200) b1_staked ''carol'' ''b1''
               (- 500000000000) (- 500000000000) False = Inr s'
         \<and> voters s' ''b1'' =
             Some \<lparr>v_owner = ''b1'', v_staked = 0, v_proxy = [], v_producers = []\<rparr>)
   \<and> max_claimable - b1_claimable 1527811200 = 1000000000000"
proof -
  have "initial genesis" by (simp add: initial_def genesis_def)
  then have "reachable genesis" by (rule r_initial)
  then have r: "reachable b1_staked" using genesis_to_b1_staked by (rule r_delegatebw)
  have c: "\<exists>s'. changebw (signed_by ''b1'' 1527811200) b1_staked ''carol'' ''b1''
               (- 500000000000) (- 500000000000) False = Inr s'
         \<and> voters s' ''b1'' =
             Some \<lparr>v_owner = ''b1'', v_staked = 0, v_proxy = [], v_producers = []\<rparr>"
    by (simp add: changebw_defs signed_by_def genesis_def b1_staked_def)
  have u: "undelegatebw (signed_by ''b1'' 1527811200) b1_staked ''carol'' ''b1''
               500000000000 500000000000
    = changebw (signed_by ''b1'' 1527811200) b1_staked ''carol'' ''b1''
               (- 500000000000) (- 500000000000) False"
    by (simp add: undelegatebw_def lower_bound_1_def signed_by_def genesis_def b1_staked_def
        fun_upd_idem)
  have m: "max_claimable - b1_claimable 1527811200 = 1000000000000"
    by (simp add: b1_claimable_base_time max_claimable_def)
  from r c u m show ?thesis by simp
qed

theorem changebw_swap_skips_b1_vesting_witness:
  "\<exists>s' v. changebw (signed_by ''b1'' 1527811200) b1_staked ''carol'' ''b1''
             (- 500000000000) (- 500000000000) False = Inr s'
     \<and> voters s' ''b1'' = Some v
     \<and> v_staked v < max_claimable - b1_claimable (now (signed_by ''b1'' 1527811200))"
proof -
  from changebw_swap_skips_b1_vesting obtain s' where
    "changebw (signed_by ''b1'' 1527811200) b1_staked ''carol'' ''b1''
       (- 500000000000) (- 500000000000) False = Inr s'"
    "voters s' ''b1'' = Some \<lparr>v_owner = ''b1'', v_staked = 0, v_proxy = [], v_producers = []\<rparr>"
    "max_claimable - b1_claimable 1527811200 = 1000000000000"
    by blast
  then show ?thesis by (simp add: signed_by_def)
qed

subsection \<open>The escrow gate of undelegatebw\<close>

lemma running_available_Cons:
  "running_available base t (r # owned) (Suc n) = running_available (base + bucket_delta t r) t owned n"
  by (simp add: running_available_def)

lemma available_spec_Cons:
  "available_spec base t (r # owned) = available_spec (base + bucket_delta t r) t owned"
  by (simp add: available_spec_def)

lemma exceeds_Cons:
  "(\<exists>n\<in>{Suc 0..Suc m}. req < running_available base t (r # owned) n) \<longleftrightarrow>
     req < base + bucket_delta t r
     \<or> (\<exists>n\<in>{Suc 0..m}. req < running_available (base + bucket_delta t r) t owned n)"
proof
  assume "\<exists>n\<in>{Suc 0..Suc m}. req < running_available base t (r # owned) n"
  then obtain n where n: "Suc 0 \<le> n" "n \<le> Suc m" "req < running_available base t (r # owned) n"
    by auto
  then obtain n' where n': "n = Suc n'" by (cases n) auto
  show "req < base + bucket_delta t r
     \<or> (\<exists>n\<in>{Suc 0..m}. req < running_available (base + bucket_delta t r) t owned n)"
  proof (cases n')
    case 0
    with n n' show ?thesis by (simp add: running_available_def)
  next
    case (Suc k)
    with n n' have "n' \<in> {Suc 0..m}" "req < running_available (base + bucket_delta t r) t owned n'"
      by (simp_all add: running_available_Cons)
    then show ?thesis by blast
  qed
next
  assume "req < base + bucket_delta t r
     \<or> (\<exists>n\<in>{Suc 0..m}. req < running_available (base + bucket_delta t r) t owned n)"
  then show "\<exists>n\<in>{Suc 0..Suc m}. req < running_available base t (r # owned) n"
  proof
    assume "req < base + bucket_delta t r"
    then have "req < running_available base t (r # owned) (Suc 0)"
      by (simp add: running_available_def)
    then show ?thesis by (intro bexI [of _ "Suc 0"]) simp_all
  next
    assume "\<exists>n\<in>{Suc 0..m}. req < running_available (base + bucket_delta t r) t owned n"
    then obtain n where "n \<in> {Suc 0..m}" "req < running_available base t (r # owned) (Suc n)"
      by (auto simp add: running_available_Cons)
    then show ?thesis by (intro bexI [of _ "Suc n"]) simp_all
  qed
qed

lemma escrow_scan_available:
  "escrow_scan from t req base rows = Inr (a, rows') \<Longrightarrow>
     a = (if \<exists>n\<in>{1..length (owned_buckets from rows)}.
               req < running_available base t (owned_buckets from rows) n
          then req else available_spec base t (owned_buckets from rows))"
proof (induction rows arbitrary: base a rows')
  case Nil
  then show ?case by (simp add: owned_buckets_def available_spec_def)
next
  case (Cons kr rows)
  obtain k r where kr: "kr = (k, r)" by (cases kr)
  show ?case
  proof (cases "eb_owner r = from")
    case False
    then have o: "owned_buckets from (kr # rows) = owned_buckets from rows"
      by (simp add: owned_buckets_def kr)
    from Cons.prems False obtain rows1 where
      "escrow_scan from t req base rows = Inr (a, rows1)"
      by (auto simp add: kr split: sum.splits)
    then show ?thesis unfolding o by (rule Cons.IH)
  next
    case True
    then have o: "owned_buckets from (kr # rows) = r # owned_buckets from rows"
      by (simp add: owned_buckets_def kr)
    have d: "base - eb_amount r + available_to_unstake_from_bucket t r = base + bucket_delta t r"
      by (simp add: bucket_delta_def)
    show ?thesis
    proof (cases "req < base + bucket_delta t r")
      case big: True
      with Cons.prems True have "a = req"
        by (auto simp add: kr Let_def d split: if_splits)
      with big show ?thesis
        unfolding o by (simp add: exceeds_Cons)
    next
      case small: False
      with Cons.prems True obtain rows1 where
        "escrow_scan from t req (base + bucket_delta t r) rows = Inr (a, rows1)"
        by (auto simp add: kr Let_def d split: if_splits sum.splits)
      then have "a = (if \<exists>n\<in>{1..length (owned_buckets from rows)}.
               req < running_available (base + bucket_delta t r) t (owned_buckets from rows) n
          then req else available_spec (base + bucket_delta t r) t (owned_buckets from rows))"
        by (rule Cons.IH)
      with small show ?thesis
        unfolding o by (simp add: exceeds_Cons available_spec_Cons)
    qed
  qed
qed

lemma genesis_to_one_bucket:
  "escrowbw created_key (signed_by ''alice'' 1600000000) genesis ''alice'' ''alice'' 50 50 False 4
     = Inr one_bucket"
  by (simp add: escrowbw_def delegatebw_def changebw_defs signed_by_def genesis_def
      one_bucket_def bucket_of_alice_def created_key_def)

lemma one_bucket_to_two_buckets:
  "escrowbw created_key (signed_by ''alice'' 1600000001) one_bucket ''alice'' ''alice'' 50 50 False 4
     = Inr two_buckets"
  by (simp add: escrowbw_def delegatebw_def changebw_defs signed_by_def genesis_def
      one_bucket_def two_buckets_def bucket_of_alice_def created_key_def)

lemma reachable_two_buckets: "reachable two_buckets"
proof -
  have "initial genesis" by (simp add: initial_def genesis_def)
  then have "reachable genesis" by (rule r_initial)
  then have "reachable one_bucket" using genesis_to_one_bucket by (rule r_escrowbw)
  then show ?thesis using one_bucket_to_two_buckets by (rule r_escrowbw)
qed

lemma bucket_of_alice_delta: "bucket_delta 1600001000 (bucket_of_alice 1600000000) = - 75"
  "bucket_delta 1600001000 (bucket_of_alice 1600000001) = - 75"
  by (simp_all add: bucket_delta_def available_to_unstake_from_bucket_def elapsed_periods_def
      bucket_of_alice_def tdiv_def)

lemma bucket_of_alice_owner: "eb_owner (bucket_of_alice c) = ''alice''"
  by (simp add: bucket_of_alice_def)

lemma two_buckets_owned:
  "owned_buckets ''alice'' (escrow two_buckets ''alice'')
     = [bucket_of_alice 1600000000, bucket_of_alice 1600000001]"
  by (simp add: owned_buckets_def two_buckets_def genesis_def bucket_of_alice_owner)

lemma two_buckets_undelegate:
  "\<not> isl (undelegatebw (signed_by ''alice'' 1600001000) two_buckets ''alice'' ''alice'' 60 60)"
  by (simp add: undelegatebw_def lower_bound_1_def changebw_defs signed_by_def genesis_def
      two_buckets_def bucket_of_alice_def available_to_unstake_from_bucket_def
      elapsed_periods_def tdiv_def)

text \<open>
  Claim C1, as stated, fails: the loop ends at the first bucket after which the running
  amount exceeds the request. With two buckets of 100, each with 25 unlocked, and a stake
  of 200, the amount over all buckets is 50, and a request of 120 passes after the first
  bucket.
\<close>

theorem undelegatebw_passes_above_available_spec:
  "reachable two_buckets
   \<and> delband two_buckets (''alice'', ''alice'') =
       Some \<lparr>db_from = ''alice'', db_to = ''alice'', db_net_weight = 100, db_cpu_weight = 100\<rparr>
   \<and> available_spec 200 1600001000 (owned_buckets ''alice'' (escrow two_buckets ''alice'')) = 50
   \<and> (50::int) < 60 + 60
   \<and> \<not> isl (undelegatebw (signed_by ''alice'' 1600001000) two_buckets ''alice'' ''alice'' 60 60)"
proof -
  have "available_spec 200 1600001000 (owned_buckets ''alice'' (escrow two_buckets ''alice'')) = 50"
    by (simp add: available_spec_def two_buckets_owned bucket_of_alice_delta)
  moreover have "delband two_buckets (''alice'', ''alice'') =
       Some \<lparr>db_from = ''alice'', db_to = ''alice'', db_net_weight = 100, db_cpu_weight = 100\<rparr>"
    by (simp add: two_buckets_def genesis_def)
  ultimately show ?thesis
    using reachable_two_buckets two_buckets_undelegate by simp
qed

text \<open>
  Claim C1, amended. A successful \<open>undelegatebw\<close> found the delegation row at scope
  \<open>receiver\<close>, key \<open>from\<close>. Starting from its \<open>net_weight + cpu_weight\<close>, the loop
  walks the buckets of \<open>from\<close> in the receiver's scope from key 1 on; each bucket takes
  away its remaining amount and gives back its unlocked share
  \<open>initial / period_count * (elapsed + 1) - (initial - remaining)\<close>, with
  \<open>elapsed = (now - created) / 15768000\<close>. If the running amount exceeds the request
  after some bucket, the loop stops there and the amount is the request; otherwise it is
  the amount over all the buckets. The request is at most that amount (else the action
  aborts).
\<close>

theorem undelegatebw_available_to_unstake:
  assumes ok: "undelegatebw ctx s from receiver net cpu = Inr s'"
  shows "\<exists>row a rows'.
      delband s (receiver, from) = Some row
    \<and> escrow_scan from (uint (now ctx)) (net + cpu) (db_net_weight row + db_cpu_weight row)
          (snd (lower_bound_1 (escrow s receiver))) = Inr (a, rows')
    \<and> a = (if \<exists>n\<in>{1..length (owned_buckets from (snd (lower_bound_1 (escrow s receiver))))}.
                net + cpu < running_available (db_net_weight row + db_cpu_weight row)
                  (uint (now ctx)) (owned_buckets from (snd (lower_bound_1 (escrow s receiver)))) n
            then net + cpu
            else available_spec (db_net_weight row + db_cpu_weight row) (uint (now ctx))
                   (owned_buckets from (snd (lower_bound_1 (escrow s receiver)))))
    \<and> net + cpu \<le> a
    \<and> (\<forall>r. bucket_delta (uint (now ctx)) r =
            tdiv (eb_initial_amount r) (uint (eb_period_count r))
              * (tdiv (uint (now ctx) - eb_created r) 15768000 + 1)
            - (eb_initial_amount r - eb_amount r) - eb_amount r)"
proof -
  from ok obtain row where row: "delband s (receiver, from) = Some row"
    by (cases "delband s (receiver, from)") (simp_all add: undelegatebw_def split: if_splits)
  obtain before rows where lb: "lower_bound_1 (escrow s receiver) = (before, rows)"
    by (cases "lower_bound_1 (escrow s receiver)")
  from ok row lb obtain a rows' where
    sc: "escrow_scan from (uint (now ctx)) (net + cpu) (db_net_weight row + db_cpu_weight row) rows
           = Inr (a, rows')"
    and le: "net + cpu \<le> a"
    by (auto simp add: undelegatebw_def split: if_splits sum.splits)
  note av = escrow_scan_available [OF sc]
  have f: "\<forall>r. bucket_delta (uint (now ctx)) r =
            tdiv (eb_initial_amount r) (uint (eb_period_count r))
              * (tdiv (uint (now ctx) - eb_created r) 15768000 + 1)
            - (eb_initial_amount r - eb_amount r) - eb_amount r"
    by (simp add: bucket_delta_def available_to_unstake_from_bucket_def elapsed_periods_def)
  from row sc av le f show ?thesis
    unfolding lb snd_conv by blast
qed

theorem undelegatebw_available_to_unstake_witness:
  "\<exists>s' rows'. undelegatebw (signed_by ''alice'' 1600001000) two_buckets ''alice'' ''alice'' 60 60
                = Inr s'
     \<and> escrow_scan ''alice'' 1600001000 120 200 (escrow two_buckets ''alice'') = Inr (120, rows')
     \<and> 120 < running_available 200 1600001000 (owned_buckets ''alice'' (escrow two_buckets ''alice'')) 1"
proof -
  from two_buckets_undelegate obtain s' where
    ok: "undelegatebw (signed_by ''alice'' 1600001000) two_buckets ''alice'' ''alice'' 60 60 = Inr s'"
    by (cases "undelegatebw (signed_by ''alice'' 1600001000) two_buckets ''alice'' ''alice'' 60 60")
      simp_all
  have lb: "snd (lower_bound_1 (escrow two_buckets ''alice'')) = escrow two_buckets ''alice''"
    by (simp add: lower_bound_1_def two_buckets_def genesis_def)
  have row: "delband two_buckets (''alice'', ''alice'') =
    Some \<lparr>db_from = ''alice'', db_to = ''alice'', db_net_weight = 100, db_cpu_weight = 100\<rparr>"
    by (simp add: two_buckets_def genesis_def)
  have r1: "120 < running_available 200 1600001000
      (owned_buckets ''alice'' (escrow two_buckets ''alice'')) 1"
    by (simp add: running_available_def two_buckets_owned bucket_of_alice_delta)
  then have ex: "\<exists>n\<in>{1..length (owned_buckets ''alice'' (escrow two_buckets ''alice''))}.
      60 + 60 < running_available (100 + 100) (uint (1600001000 :: 32 word))
        (owned_buckets ''alice'' (escrow two_buckets ''alice'')) n"
    by (intro bexI [of _ 1]) (simp_all add: two_buckets_owned)
  from undelegatebw_available_to_unstake [OF ok]
  obtain a rows' where
    "escrow_scan ''alice'' 1600001000 120 200 (escrow two_buckets ''alice'') = Inr (a, rows')"
    "a = (if \<exists>n\<in>{1..length (owned_buckets ''alice'' (escrow two_buckets ''alice''))}.
                60 + 60 < running_available (100 + 100) (uint (1600001000 :: 32 word))
                  (owned_buckets ''alice'' (escrow two_buckets ''alice'')) n
            then 60 + 60
            else available_spec (100 + 100) (uint (1600001000 :: 32 word))
                   (owned_buckets ''alice'' (escrow two_buckets ''alice'')))"
    unfolding lb row by (auto simp add: signed_by_def)
  with ex have "escrow_scan ''alice'' 1600001000 120 200 (escrow two_buckets ''alice'') = Inr (120, rows')"
    by simp
  with ok r1 show ?thesis by blast
qed

end
